theory Spec2Isabelle
  imports Main "HOL-Library.Word"
begin

unbundle bit_operations_syntax

section \<open>Go values used by the sentinel's authentication code\<close>

text \<open>
  The code under verification is the package \<^verbatim>\<open>sentinel\<close> of
  \<^verbatim>\<open>x/claim/client/cli/tx_add_claim.go\<close> (lines 51 to 379): the two proof codecs
  (\<^verbatim>\<open>parseArkAuth\<close>, \<^verbatim>\<open>parseContractAuth\<close>, \<^verbatim>\<open>ArkAuth.String\<close>), the validators, the
  rate limiter registry (\<^verbatim>\<open>isRateLimited\<close>), \<^verbatim>\<open>paidTier\<close>, \<^verbatim>\<open>freeTier\<close> and the \<^verbatim>\<open>auth\<close>
  middleware.

  \<^item> \<^verbatim>\<open>uint64\<close> and \<^verbatim>\<open>int64\<close> are 64-bit words; an \<^verbatim>\<open>int64\<close> is read with \<open>sint\<close>.
  \<^item> a Go \<^verbatim>\<open>string\<close> is a byte sequence: a \<open>string\<close> (list of 8-bit characters);
  \<^item> a \<^verbatim>\<open>[]byte\<close> is a list of 8-bit words;
  \<^item> a returned \<^verbatim>\<open>error\<close> is a value of the datatype \<open>error\<close>; a run-time panic is a
    separate outcome (\<open>Panics\<close>), never confused with a returned error.
\<close>

type_synonym u64 = "64 word"
type_synonym i64 = "64 word"
type_synonym byte = "8 word"

datatype error =
    ErrSyntax                  \<comment> \<open>\<^verbatim>\<open>strconv.ErrSyntax\<close> (inside a \<^verbatim>\<open>*NumError\<close>)\<close>
  | ErrRange                   \<comment> \<open>\<^verbatim>\<open>strconv.ErrRange\<close> (inside a \<^verbatim>\<open>*NumError\<close>)\<close>
  | InvalidByteError char      \<comment> \<open>\<^verbatim>\<open>hex.InvalidByteError\<close>\<close>
  | ErrLength                  \<comment> \<open>\<^verbatim>\<open>hex.ErrLength\<close>\<close>
  | ErrContractIdZero          \<comment> \<open>"contract id cannot be zero"\<close>
  | ErrTimestamp i64           \<comment> \<open>"timestamp must be larger than %d"\<close>
  | ErrInvalidSignature        \<comment> \<open>"invalid signature"\<close>
  | ErrInternal error          \<comment> \<open>"internal server error: %w"\<close>
  | ErrOpenAContract           \<comment> \<open>"open a contract"\<close>
  | ErrBadNonce i64 i64        \<comment> \<open>"bad nonce (%d/%d)"\<close>
  | ErrContractSpent           \<comment> \<open>"contract spent"\<close>
  | ErrRateLimited             \<comment> \<open>the 429 errors of \<^verbatim>\<open>paidTier\<close> and \<^verbatim>\<open>freeTier\<close>\<close>
  | ErrCollaborator string     \<comment> \<open>an error returned by code outside this file\<close>

datatype panic =
    IndexOutOfRange nat nat    \<comment> \<open>index, length\<close>
  | NilDereference
  | Int64OutOfBound            \<comment> \<open>\<^verbatim>\<open>cosmos.Int.Int64()\<close> on a value that does not fit\<close>

datatype 'a go = Returns 'a | Panics panic

subsection \<open>\<^verbatim>\<open>strconv\<close>: decimal numbers\<close>

definition digits10 :: string where
  "digits10 = ''0123456789''"

text \<open>The value of a decimal digit: \<^verbatim>\<open>'0' <= c && c <= '9': d = c - '0'\<close>.\<close>

definition digit_val :: "char \<Rightarrow> nat option" where
  "digit_val c =
     (let b = (of_char c :: nat) in
      if of_char CHR ''0'' \<le> b \<and> b \<le> of_char CHR ''9''
      then Some (b - of_char CHR ''0'')
      else None)"

definition maxUint64 :: nat where
  "maxUint64 = 18446744073709551615"

text \<open>
  The digit loop of \<^verbatim>\<open>strconv.ParseUint(s, 10, 64)\<close>: a character that is not a decimal
  digit is a syntax error; \<^verbatim>\<open>n >= cutoff\<close> (then \<^verbatim>\<open>n*10\<close> overflows) and
  \<^verbatim>\<open>n1 < n || n1 > maxVal\<close> (then \<^verbatim>\<open>n*10 + d\<close> overflows) are range errors. The loop runs
  left to right and stops at the first error.
\<close>

fun parse_digits :: "nat \<Rightarrow> string \<Rightarrow> error + nat" where
  "parse_digits n [] = Inr n"
| "parse_digits n (c # cs) =
     (case digit_val c of
        None \<Rightarrow> Inl ErrSyntax
      | Some d \<Rightarrow>
          if n \<ge> maxUint64 div 10 + 1 then Inl ErrRange
          else if n * 10 + d > maxUint64 then Inl ErrRange
          else parse_digits (n * 10 + d) cs)"

definition ParseUint :: "string \<Rightarrow> error + u64" where
  "ParseUint s =
     (if s = [] then Inl ErrSyntax
      else case parse_digits 0 s of
             Inl e \<Rightarrow> Inl e
           | Inr n \<Rightarrow> Inr (word_of_nat n))"

text \<open>
  \<^verbatim>\<open>strconv.ParseInt(s, 10, 64)\<close>: an optional sign, then \<^verbatim>\<open>ParseUint\<close> on the rest; the
  magnitude must be below \<open>2^63\<close> (at most \<open>2^63\<close> for a negative number).
\<close>

definition ParseInt :: "string \<Rightarrow> error + i64" where
  "ParseInt s =
     (case s of
        [] \<Rightarrow> Inl ErrSyntax
      | c # cs \<Rightarrow>
          let neg = (c = CHR ''-'');
              s' = (if c = CHR ''+'' \<or> c = CHR ''-'' then cs else s)
          in case ParseUint s' of
               Inl e \<Rightarrow> Inl e
             | Inr un \<Rightarrow>
                 if \<not> neg \<and> unat un \<ge> 2 ^ 63 then Inl ErrRange
                 else if neg \<and> unat un > 2 ^ 63 then Inl ErrRange
                 else Inr (if neg then - un else un))"

text \<open>The verb \<^verbatim>\<open>%d\<close> of \<^verbatim>\<open>fmt.Sprintf\<close> (and \<^verbatim>\<open>strconv.FormatUint(_, 10)\<close>).\<close>

fun dec :: "nat \<Rightarrow> string" where
  "dec n = (if n < 10 then [digits10 ! n] else dec (n div 10) @ [digits10 ! (n mod 10)])"

declare dec.simps [simp del]

definition FormatUint :: "u64 \<Rightarrow> string" where
  "FormatUint w = dec (unat w)"

definition FormatInt :: "i64 \<Rightarrow> string" where
  "FormatInt w = (if sint w < 0 then CHR ''-'' # dec (nat (- sint w)) else dec (nat (sint w)))"

subsection \<open>\<^verbatim>\<open>encoding/hex\<close>\<close>

definition hextable :: string where
  "hextable = ''0123456789abcdef''"

text \<open>\<^verbatim>\<open>hex.EncodeToString\<close>: \<^verbatim>\<open>hextable[v>>4]\<close>, \<^verbatim>\<open>hextable[v&0x0f]\<close> for every byte.\<close>

fun EncodeToString :: "byte list \<Rightarrow> string" where
  "EncodeToString [] = []"
| "EncodeToString (v # vs) =
     hextable ! unat (drop_bit 4 v) # hextable ! unat (v AND 15) # EncodeToString vs"

text \<open>The reverse table of the package: both cases of the letters are accepted.\<close>

definition fromHexChar :: "char \<Rightarrow> byte option" where
  "fromHexChar c =
     (case digit_val c of
        Some d \<Rightarrow> Some (word_of_nat d)
      | None \<Rightarrow>
          if c = CHR ''a'' \<or> c = CHR ''A'' then Some 10
          else if c = CHR ''b'' \<or> c = CHR ''B'' then Some 11
          else if c = CHR ''c'' \<or> c = CHR ''C'' then Some 12
          else if c = CHR ''d'' \<or> c = CHR ''D'' then Some 13
          else if c = CHR ''e'' \<or> c = CHR ''E'' then Some 14
          else if c = CHR ''f'' \<or> c = CHR ''F'' then Some 15
          else None)"

text \<open>
  \<^verbatim>\<open>hex.DecodeString\<close>: pairs of characters from the left, the first invalid character
  is reported; a single trailing character is reported as invalid if it is, as a length
  error otherwise.
\<close>

fun DecodeString :: "string \<Rightarrow> error + byte list" where
  "DecodeString [] = Inr []"
| "DecodeString [p] =
     (case fromHexChar p of None \<Rightarrow> Inl (InvalidByteError p) | Some _ \<Rightarrow> Inl ErrLength)"
| "DecodeString (p # q # cs) =
     (case fromHexChar p of
        None \<Rightarrow> Inl (InvalidByteError p)
      | Some a \<Rightarrow>
          (case fromHexChar q of
             None \<Rightarrow> Inl (InvalidByteError q)
           | Some b \<Rightarrow>
               (case DecodeString cs of
                  Inl e \<Rightarrow> Inl e
                | Inr bs \<Rightarrow> Inr ((push_bit 4 a OR b) # bs))))"

subsection \<open>\<^verbatim>\<open>strings.SplitN\<close> and \<^verbatim>\<open>strings.Split\<close> on a one-byte separator\<close>

text \<open>
  \<^verbatim>\<open>genSplit\<close>: with \<open>n = 0\<close> the result is empty; otherwise at most \<open>n\<close> pieces are cut at
  the separator from the left and the last piece is the rest of the string, so the
  result is never empty.
\<close>

fun SplitN :: "string \<Rightarrow> char \<Rightarrow> nat \<Rightarrow> string list" where
  "SplitN s sep 0 = []"
| "SplitN s sep (Suc 0) = [s]"
| "SplitN s sep (Suc (Suc n)) =
     (if sep \<in> set s
      then takeWhile (\<lambda>c. c \<noteq> sep) s # SplitN (tl (dropWhile (\<lambda>c. c \<noteq> sep) s)) sep (Suc n)
      else [s])"

text \<open>\<^verbatim>\<open>strings.Split(s, sep)\<close> is \<^verbatim>\<open>SplitN\<close> with \<^verbatim>\<open>Count(s, sep) + 1\<close> pieces.\<close>

definition Split :: "string \<Rightarrow> char \<Rightarrow> string list" where
  "Split s sep = SplitN s sep (Suc (length (filter (\<lambda>c. c = sep) s)))"

section \<open>The two proofs and their codecs\<close>

text \<open>\<^verbatim>\<open>common.PubKey\<close> is a string type.\<close>

type_synonym PubKey = string

record ContractAuth =
  ContractId :: u64
  Timestamp :: i64
  Signature :: "byte list"

record ArkAuth =
  ContractId :: u64
  Spender :: PubKey
  Nonce :: i64
  Signature :: "byte list"

text \<open>\<^verbatim>\<open>fmt.Sprintf("%d:%d", contractId, nonce)\<close>\<close>

definition GenerateMessageToSign :: "u64 \<Rightarrow> i64 \<Rightarrow> string" where
  "GenerateMessageToSign contractId nonce = FormatUint contractId @ '':'' @ FormatInt nonce"

text \<open>\<^verbatim>\<open>fmt.Sprintf("%s:%s", GenerateMessageToSign(contractId, nonce), hex.EncodeToString(signature))\<close>\<close>

definition GenerateArkAuthString :: "u64 \<Rightarrow> i64 \<Rightarrow> byte list \<Rightarrow> string" where
  "GenerateArkAuthString contractId nonce signature =
     GenerateMessageToSign contractId nonce @ '':'' @ EncodeToString signature"

definition ArkAuth_String :: "ArkAuth \<Rightarrow> string" where
  "ArkAuth_String aa =
     GenerateArkAuthString (ArkAuth.ContractId aa) (Nonce aa) (ArkAuth.Signature aa)"

text \<open>The zero values \<^verbatim>\<open>var aa ArkAuth\<close> and \<^verbatim>\<open>var auth ContractAuth\<close>.\<close>

definition ArkAuth_zero :: ArkAuth where
  "ArkAuth_zero = \<lparr>ArkAuth.ContractId = 0, Spender = [], Nonce = 0, ArkAuth.Signature = []\<rparr>"

definition ContractAuth_zero :: ContractAuth where
  "ContractAuth_zero = \<lparr>ContractAuth.ContractId = 0, Timestamp = 0, ContractAuth.Signature = []\<rparr>"

text \<open>
  \<^verbatim>\<open>parseArkAuth\<close>: the three guards are \<^verbatim>\<open>len(parts) > 0\<close>, \<^verbatim>\<open>len(parts) > 1\<close> and
  \<^verbatim>\<open>len(parts) > 2\<close>; a field whose part is missing keeps its zero value. The spender is
  never assigned.
\<close>

definition parseArkAuth :: "string \<Rightarrow> error + ArkAuth" where
  "parseArkAuth raw =
     (let parts = SplitN raw CHR '':'' 3; aa = ArkAuth_zero in
      case (if length parts > 0
            then (case ParseUint (parts ! 0) of
                    Inl e \<Rightarrow> Inl e
                  | Inr v \<Rightarrow> Inr (aa\<lparr>ArkAuth.ContractId := v\<rparr>))
            else Inr aa) of
        Inl e \<Rightarrow> Inl e
      | Inr aa \<Rightarrow>
          (case (if length parts > 1
                 then (case ParseInt (parts ! 1) of
                         Inl e \<Rightarrow> Inl e
                       | Inr v \<Rightarrow> Inr (aa\<lparr>Nonce := v\<rparr>))
                 else Inr aa) of
             Inl e \<Rightarrow> Inl e
           | Inr aa \<Rightarrow>
               (if length parts > 2
                then (case DecodeString (parts ! 2) of
                        Inl e \<Rightarrow> Inl e
                      | Inr v \<Rightarrow> Inr (aa\<lparr>ArkAuth.Signature := v\<rparr>))
                else Inr aa)))"

text \<open>
  \<^verbatim>\<open>parseContractAuth\<close>: the guards are \<^verbatim>\<open>len(parts) > 0\<close>, again \<^verbatim>\<open>len(parts) > 0\<close>, and
  \<^verbatim>\<open>len(parts) > 2\<close>; under the second one the code reads \<^verbatim>\<open>parts[1]\<close>, which panics
  with an index out of range when there is one part only.
\<close>

definition parseContractAuth :: "string \<Rightarrow> (error + ContractAuth) go" where
  "parseContractAuth raw =
     (let parts = SplitN raw CHR '':'' 3; auth = ContractAuth_zero in
      case (if length parts > 0
            then (case ParseUint (parts ! 0) of
                    Inl e \<Rightarrow> Inl e
                  | Inr v \<Rightarrow> Inr (auth\<lparr>ContractAuth.ContractId := v\<rparr>))
            else Inr auth) of
        Inl e \<Rightarrow> Returns (Inl e)
      | Inr auth \<Rightarrow>
          if length parts > 0 \<and> \<not> 1 < length parts then Panics (IndexOutOfRange 1 (length parts))
          else
          (case (if length parts > 0
                 then (case ParseInt (parts ! 1) of
                         Inl e \<Rightarrow> Inl e
                       | Inr v \<Rightarrow> Inr (auth\<lparr>Timestamp := v\<rparr>))
                 else Inr auth) of
             Inl e \<Rightarrow> Returns (Inl e)
           | Inr auth \<Rightarrow>
               (if length parts > 2
                then (case DecodeString (parts ! 2) of
                        Inl e \<Rightarrow> Returns (Inl e)
                      | Inr v \<Rightarrow> Returns (Inr (auth\<lparr>ContractAuth.Signature := v\<rparr>)))
                else Returns (Inr auth))))"

section \<open>Limiters\<close>

text \<open>
  \<^verbatim>\<open>golang.org/x/time/rate\<close> is a library outside the repository. Its limiter is a
  token bucket whose tokens are a \<^verbatim>\<open>float64\<close> computed from the clock; that arithmetic
  is not modelled. A limiter is the limit and the burst it was built with, and the
  library's own bookkeeping (tokens, time of the last update), of a type \<open>'s\<close> the
  model does not look into. What the library does with it is a parameter
  (\<open>Limiter_init\<close> and \<open>Limiter_allow\<close> of the record \<open>Collaborators\<close> below).
  The limit is \<^verbatim>\<open>rate.Every(d)\<close>, kept as the interval \<open>d\<close> in nanoseconds: one token
  per \<open>d\<close>.
\<close>

record 's Limiter =
  every :: int      \<comment> \<open>the interval \<open>d\<close> of the limit \<^verbatim>\<open>rate.Every(d)\<close>, in nanoseconds\<close>
  burst :: int      \<comment> \<open>bucket size, in tokens\<close>
  state :: 's       \<comment> \<open>the library's bookkeeping\<close>

definition Minute :: int where
  "Minute = 60000000000"

text \<open>
  The package-level map \<^verbatim>\<open>visitors\<close> (guarded by \<^verbatim>\<open>mu\<close>). It holds pointers to
  limiters that \<^verbatim>\<open>Allow\<close> mutates in place: in the model the updated limiter is written
  back under its key.
\<close>

type_synonym 's visitors = "string \<rightharpoonup> 's Limiter"

section \<open>Contracts, claims and the stores\<close>

text \<open>
  The types of \<^verbatim>\<open>x/arkeo/types\<close> and the stores of the sentinel are declared outside the
  verified file; the fields below are the ones this file reads and writes.
\<close>

datatype ContractType = SUBSCRIPTION | PAY_AS_YOU_GO

text \<open>Modelled from the spec: \<^verbatim>\<open>types.ContractAuthorization\<close>, "authorization: {OPEN, RESTRICTED}".\<close>

datatype ContractAuthorization = RESTRICTED | OPEN

text \<open>\<^verbatim>\<open>common.Service\<close> is an \<^verbatim>\<open>int32\<close>.\<close>

type_synonym Service = "32 word"

text \<open>\<^verbatim>\<open>cosmos.Int\<close> wraps a big integer that may be nil: \<open>None\<close> is nil.\<close>

type_synonym cosmos_Int = "int option"

record Coin =
  Denom :: string
  Amount :: cosmos_Int

record Contract =
  Id :: u64
  Type :: ContractType
  Authorization :: ContractAuthorization
  Service :: Service
  Rate :: Coin
  Deposit :: cosmos_Int
  Nonce :: i64
  QueriesPerMinute :: i64
  Height :: i64
  Duration :: i64
  SettlementDuration :: i64

text \<open>
  \<^verbatim>\<open>cosmos.Int.Int64()\<close> panics when the value does not fit an \<^verbatim>\<open>int64\<close> (and on a nil
  integer).
\<close>

definition Int64 :: "cosmos_Int \<Rightarrow> i64 go" where
  "Int64 i =
     (case i of
        None \<Rightarrow> Panics NilDereference
      | Some v \<Rightarrow> if - (2 ^ 63) \<le> v \<and> v < 2 ^ 63 then Returns (word_of_int v)
                  else Panics Int64OutOfBound)"

text \<open>\<^verbatim>\<open>cosmos.NewInt(n)\<close> of an \<^verbatim>\<open>int64\<close>.\<close>

definition NewInt :: "i64 \<Rightarrow> int" where
  "NewInt n = sint n"

text \<open>
  Modelled from the spec: the claim record and \<^verbatim>\<open>NewClaim\<close> ("\<^verbatim>\<open>contractId\<close>, \<^verbatim>\<open>spender\<close>,
  \<^verbatim>\<open>nonce\<close>, \<^verbatim>\<open>signatureHex\<close>, \<^verbatim>\<open>claimed\<close>"; "one live record per contract").
\<close>

record Claim =
  ContractId :: u64
  Spender :: PubKey
  Nonce :: i64
  Signature :: string
  Claimed :: bool

definition NewClaim :: "u64 \<Rightarrow> PubKey \<Rightarrow> i64 \<Rightarrow> string \<Rightarrow> Claim" where
  "NewClaim contractId spender nonce signature =
     \<lparr>Claim.ContractId = contractId, Claim.Spender = spender, Claim.Nonce = nonce,
      Claim.Signature = signature, Claimed = False\<rparr>"

text \<open>
  Modelled from the spec: the contract cache, "\<^verbatim>\<open>get(id) -> Contract|NotFound\<close>,
  \<^verbatim>\<open>put(Contract)\<close>, \<^verbatim>\<open>currentHeight() -> int\<close>". The Go \<^verbatim>\<open>Get\<close> returns a pair of a
  contract and an error, and \<^verbatim>\<open>auth\<close> reads the contract of the pair even when the
  error is set, so the table holds the pair. Contracts are stored under the decimal
  contract id, the key \<^verbatim>\<open>paidTier\<close> looks them up by.
\<close>

record MemStore =
  db :: "string \<Rightarrow> Contract \<times> error option"
  blockHeight :: i64

definition MemStore_Get :: "MemStore \<Rightarrow> string \<Rightarrow> Contract \<times> error option" where
  "MemStore_Get ms key = db ms key"

definition MemStore_GetHeight :: "MemStore \<Rightarrow> i64" where
  "MemStore_GetHeight ms = blockHeight ms"

definition MemStore_Put :: "MemStore \<Rightarrow> Contract \<Rightarrow> MemStore" where
  "MemStore_Put ms contract =
     ms\<lparr>db := (db ms)(FormatUint (Contract.Id contract) := (contract, None))\<rparr>"

text \<open>
  Modelled from the spec: the claim cache, "\<^verbatim>\<open>has(id) -> bool\<close>,
  \<^verbatim>\<open>get(id) -> Claim|NotFound\<close>, \<^verbatim>\<open>set(Claim)\<close>", with the store errors of section 7
  ("cache/backing-store I/O failure"): \<open>read_fails\<close> and \<open>write_fails\<close> say for which
  keys and claims the backing store fails. A failed \<^verbatim>\<open>Set\<close> writes nothing.
\<close>

record ClaimStore =
  claims :: "string \<rightharpoonup> Claim"
  read_fails :: "string \<Rightarrow> bool"
  write_fails :: "Claim \<Rightarrow> bool"

definition ClaimStore_Has :: "ClaimStore \<Rightarrow> string \<Rightarrow> bool" where
  "ClaimStore_Has cs key = (claims cs key \<noteq> None)"

definition ClaimStore_Get :: "ClaimStore \<Rightarrow> string \<Rightarrow> error + Claim" where
  "ClaimStore_Get cs key =
     (if read_fails cs key then Inl (ErrCollaborator ''store'')
      else case claims cs key of
             None \<Rightarrow> Inl (ErrCollaborator ''not found'')
           | Some c \<Rightarrow> Inr c)"

definition ClaimStore_Set :: "ClaimStore \<Rightarrow> Claim \<Rightarrow> error + ClaimStore" where
  "ClaimStore_Set cs claim =
     (if write_fails cs claim then Inl (ErrCollaborator ''store'')
      else Inr (cs\<lparr>claims := (claims cs)(FormatUint (Claim.ContractId claim) \<mapsto> claim)\<rparr>))"

section \<open>The proxy\<close>

record Configuration =
  ProviderPubKey :: PubKey
  FreeTierRateLimit :: int

record CORs =
  AllowOrigins :: "string list"
  AllowMethods :: "string list"
  AllowHeaders :: "string list"

record ContractConfig =
  CORs :: CORs
  WhitelistIPAddresses :: "string list"
  PerUserRateLimit :: int

text \<open>
  The state the handlers work on: the fields of \<^verbatim>\<open>Proxy\<close> this file uses, and the
  package-level \<^verbatim>\<open>visitors\<close> map. \<^verbatim>\<open>ContractConfigStore.Get\<close> is only read; its error
  is logged and the configuration it returned is used whatever the error, so the store
  is the function from contract ids to that configuration. The Go \<^verbatim>\<open>int\<close> of the
  rate limits is only compared and converted, never computed with: it is an \<open>int\<close>.
\<close>

record 's Proxy =
  Config :: Configuration
  MemStore :: MemStore
  ClaimStore :: ClaimStore
  ContractConfigStore :: "u64 \<Rightarrow> ContractConfig"
  visitors :: "'s visitors"

text \<open>\<^verbatim>\<open>types.MsgClaimContractIncome\<close>, as built by \<^verbatim>\<open>NewMsgClaimContractIncome\<close>.\<close>

record MsgClaimContractIncome =
  Creator :: string
  ContractId :: u64
  Nonce :: i64
  Signature :: "byte list"

definition NewMsgClaimContractIncome :: "string \<Rightarrow> u64 \<Rightarrow> i64 \<Rightarrow> byte list \<Rightarrow> MsgClaimContractIncome" where
  "NewMsgClaimContractIncome creator contractId nonce sig =
     \<lparr>Creator = creator, MsgClaimContractIncome.ContractId = contractId,
      MsgClaimContractIncome.Nonce = nonce, MsgClaimContractIncome.Signature = sig\<rparr>"

text \<open>
  Code outside this file that it calls: parameters of the model.
  \<^item> Functions of other packages of the repository.
  \<^item> The rate library: \<open>Limiter_init d b\<close> is the bookkeeping of the limiter
    \<^verbatim>\<open>rate.NewLimiter(rate.Every(d), b)\<close>; \<open>Limiter_allow d b s t\<close> is what \<^verbatim>\<open>Allow()\<close>
    reports, and the bookkeeping it leaves, for a limiter of limit \<^verbatim>\<open>rate.Every(d)\<close>,
    burst \<open>b\<close> and bookkeeping \<open>s\<close> when the clock (\<^verbatim>\<open>time.Now()\<close>) reads \<open>t\<close>.
  \<^item> \<^verbatim>\<open>strings.EqualFold\<close>, equality under Unicode case folding.
\<close>

record 's Collaborators =
  IsExpired :: "Contract \<Rightarrow> i64 \<Rightarrow> bool"                  \<comment> \<open>\<^verbatim>\<open>contract.IsExpired(height)\<close>\<close>
  NewService :: "string \<Rightarrow> error + Service"               \<comment> \<open>\<^verbatim>\<open>common.NewService\<close>\<close>
  GetMyAddress :: "PubKey \<Rightarrow> error + string"               \<comment> \<open>\<^verbatim>\<open>provider.GetMyAddress()\<close>\<close>
  ValidateBasic :: "MsgClaimContractIncome \<Rightarrow> error option"  \<comment> \<open>\<^verbatim>\<open>msg.ValidateBasic()\<close>\<close>
  Limiter_init :: "int \<Rightarrow> int \<Rightarrow> 's"
  Limiter_allow :: "int \<Rightarrow> int \<Rightarrow> 's \<Rightarrow> int \<Rightarrow> bool \<times> 's"
  EqualFold :: "string \<Rightarrow> string \<Rightarrow> bool"

subsection \<open>The rate limiter registry\<close>

text \<open>\<^verbatim>\<open>rate.NewLimiter(rate.Every(d), b)\<close>\<close>

definition NewLimiter :: "'s Collaborators \<Rightarrow> int \<Rightarrow> int \<Rightarrow> 's Limiter" where
  "NewLimiter env d b = \<lparr>every = d, burst = b, state = Limiter_init env d b\<rparr>"

text \<open>
  \<^verbatim>\<open>limiter.Allow()\<close> when the clock reads \<open>t\<close>: what it reports and the limiter
  afterwards. Limit and burst of a limiter change only through \<^verbatim>\<open>SetLimit\<close> and
  \<^verbatim>\<open>SetBurst\<close>, which this file never calls.
\<close>

definition Allow :: "'s Collaborators \<Rightarrow> 's Limiter \<Rightarrow> int \<Rightarrow> bool \<times> 's Limiter" where
  "Allow env lim t =
     (case Limiter_allow env (every lim) (burst lim) (state lim) t of
        (ok, s) \<Rightarrow> (ok, lim\<lparr>state := s\<rparr>))"

text \<open>
  \<^verbatim>\<open>isRateLimited(contractId, key, limitTokens)\<close>, at clock reading \<open>now\<close>: the result
  (\<open>True\<close> = rate-limited) and the map afterwards.
\<close>

definition isRateLimited ::
  "'s Collaborators \<Rightarrow> 's visitors \<Rightarrow> u64 \<Rightarrow> string \<Rightarrow> int \<Rightarrow> int \<Rightarrow> bool \<times> 's visitors" where
  "isRateLimited env vis contractId key limitTokens now =
     (let key' = FormatUint contractId @ ''-'' @ key;
          limiter = (case vis key' of
                       None \<Rightarrow> NewLimiter env Minute limitTokens
                     | Some l \<Rightarrow> l);
          (ok, limiter') = Allow env limiter now
      in (\<not> ok, vis(key' \<mapsto> limiter')))"

subsection \<open>The validators\<close>

text \<open>\<^verbatim>\<open>func (aa ArkAuth) Validate(provider common.PubKey) error\<close>; \<open>None\<close> is \<^verbatim>\<open>nil\<close>.\<close>

definition ArkAuth_Validate :: "'s Collaborators \<Rightarrow> ArkAuth \<Rightarrow> PubKey \<Rightarrow> error option" where
  "ArkAuth_Validate env aa provider =
     (case GetMyAddress env provider of
        Inl err \<Rightarrow> Some (ErrInternal err)
      | Inr creator \<Rightarrow>
          ValidateBasic env
            (NewMsgClaimContractIncome creator (ArkAuth.ContractId aa) (ArkAuth.Nonce aa)
               (ArkAuth.Signature aa)))"

text \<open>
  \<^verbatim>\<open>func (auth ContractAuth) Validate(lastTimestamp int64, client common.PubKey) error\<close>.
  \<^verbatim>\<open>cosmos.GetPubKeyFromBech32(cosmos.Bech32PubKeyTypeAccPub, _)\<close> and the key's
  \<^verbatim>\<open>VerifySignature\<close> are the cryptographic primitives: parameters.
\<close>

definition ContractAuth_Validate ::
  "(string \<Rightarrow> error + 'pk) \<Rightarrow> ('pk \<Rightarrow> string \<Rightarrow> byte list \<Rightarrow> bool) \<Rightarrow>
   ContractAuth \<Rightarrow> i64 \<Rightarrow> PubKey \<Rightarrow> error option" where
  "ContractAuth_Validate GetPubKeyFromBech32 VerifySignature auth lastTimestamp client =
     (if ContractAuth.ContractId auth = 0 then Some ErrContractIdZero
      else if sint (Timestamp auth) \<le> sint lastTimestamp then Some (ErrTimestamp lastTimestamp)
      else case GetPubKeyFromBech32 client of
             Inl err \<Rightarrow> Some err
           | Inr pk \<Rightarrow>
               let msg = FormatUint (ContractAuth.ContractId auth) @ '':'' @ FormatInt (Timestamp auth)
               in if \<not> VerifySignature pk msg (ContractAuth.Signature auth)
                  then Some ErrInvalidSignature
                  else None)"

subsection \<open>\<^verbatim>\<open>freeTier\<close> and \<^verbatim>\<open>paidTier\<close>\<close>

definition freeTier ::
  "'s Collaborators \<Rightarrow> 's Proxy \<Rightarrow> string \<Rightarrow> int \<Rightarrow> (nat \<times> error option) \<times> 's Proxy" where
  "freeTier env p remoteAddr now =
     (let (limited, vis) = isRateLimited env (visitors p) 0 remoteAddr (FreeTierRateLimit (Config p)) now;
          p = p\<lparr>visitors := vis\<rparr>
      in if limited then ((429, Some ErrRateLimited), p) else ((200, None), p))"

text \<open>
  The block \<^verbatim>\<open>if p.ClaimStore.Has(key) { ... }\<close> of \<^verbatim>\<open>paidTier\<close>: the claim to go on
  with, or the status and error returned.
\<close>

definition paidTier_claim :: "ClaimStore \<Rightarrow> string \<Rightarrow> ArkAuth \<Rightarrow> Claim \<Rightarrow> (nat \<times> error) + Claim" where
  "paidTier_claim cs key aa claim =
     (if ClaimStore_Has cs key
      then (case ClaimStore_Get cs key of
              Inl err \<Rightarrow> Inl (500, ErrInternal err)
            | Inr claim \<Rightarrow>
                if sint (Claim.Nonce claim) \<ge> sint (ArkAuth.Nonce aa)
                then Inl (400, ErrBadNonce (ArkAuth.Nonce aa) (Claim.Nonce claim))
                else Inr claim)
      else Inr claim)"

text \<open>
  The block \<^verbatim>\<open>if contract.Type == types.ContractType_PAY_AS_YOU_GO { ... }\<close>: \<open>None\<close>
  when the check passes. \<^verbatim>\<open>||\<close> short-cuts, so \<^verbatim>\<open>Int64()\<close> is not called on a nil
  deposit. \<^verbatim>\<open>aa.Nonce*contract.Rate.Amount.Int64()\<close> is a product of two \<^verbatim>\<open>int64\<close>: it
  wraps around.
\<close>

definition paidTier_deposit :: "Contract \<Rightarrow> ArkAuth \<Rightarrow> (nat \<times> error) option go" where
  "paidTier_deposit contract aa =
     (if Type contract = PAY_AS_YOU_GO
      then (case Deposit contract of
              None \<Rightarrow> Returns (Some (402, ErrContractSpent))
            | Some deposit \<Rightarrow>
                (case Int64 (Amount (Rate contract)) of
                   Panics x \<Rightarrow> Panics x
                 | Returns rate \<Rightarrow>
                     if deposit < NewInt (ArkAuth.Nonce aa * rate)
                     then Returns (Some (402, ErrContractSpent))
                     else Returns None))
      else Returns None)"

text \<open>
  \<^verbatim>\<open>func (p Proxy) paidTier(aa ArkAuth, remoteAddr string) (code int, err error)\<close>, at
  clock reading \<open>now\<close>: what it returns (or the panic) and the state afterwards.
\<close>

definition paidTier ::
  "'s Collaborators \<Rightarrow> 's Proxy \<Rightarrow> ArkAuth \<Rightarrow> string \<Rightarrow> int \<Rightarrow>
   (nat \<times> error option) go \<times> 's Proxy" where
  "paidTier env p aa remoteAddr now =
     (let key = FormatUint (ArkAuth.ContractId aa);
          (contract, err) = MemStore_Get (MemStore p) key
      in case err of
           Some e \<Rightarrow> (Returns (500, Some (ErrInternal e)), p)
         | None \<Rightarrow>
             if IsExpired env contract (MemStore_GetHeight (MemStore p))
             then (Returns (402, Some ErrOpenAContract), p)
             else
               let sig = EncodeToString (ArkAuth.Signature aa);
                   claim = NewClaim (ArkAuth.ContractId aa) (ArkAuth.Spender aa) (ArkAuth.Nonce aa) sig
               in case paidTier_claim (ClaimStore p) key aa claim of
                    Inl (code, e) \<Rightarrow> (Returns (code, Some e), p)
                  | Inr claim \<Rightarrow>
                      (case paidTier_deposit contract aa of
                         Panics x \<Rightarrow> (Panics x, p)
                       | Returns (Some (code, e)) \<Rightarrow> (Returns (code, Some e), p)
                       | Returns None \<Rightarrow>
                           let (limited, vis) =
                                 isRateLimited env (visitors p) (Contract.Id contract) key
                                   (sint (QueriesPerMinute contract)) now;
                               p = p\<lparr>visitors := vis\<rparr>
                           in if limited then (Returns (429, Some ErrRateLimited), p)
                              else
                                let claim = claim\<lparr>Claim.Nonce := ArkAuth.Nonce aa,
                                              Claim.Signature := sig, Claimed := False\<rparr>
                                in case ClaimStore_Set (ClaimStore p) claim of
                                     Inl e \<Rightarrow> (Returns (500, Some (ErrInternal e)), p)
                                   | Inr cs \<Rightarrow>
                                       let contract = contract\<lparr>Contract.Nonce := ArkAuth.Nonce aa\<rparr>
                                       in (Returns (200, None),
                                           p\<lparr>ClaimStore := cs,
                                             MemStore := MemStore_Put (MemStore p) contract\<rparr>)))"

subsection \<open>The \<^verbatim>\<open>auth\<close> middleware\<close>

text \<open>
  What the handler reads of the request: the query parameters (\<^verbatim>\<open>r.URL.Query()\<close>, a map
  to lists of values), the first value of a header (\<^verbatim>\<open>r.Header.Get\<close>, empty when
  absent), the peer address and the path.
\<close>

record Request =
  Query :: "string \<rightharpoonup> string list"
  Header_Get :: "string \<Rightarrow> string"
  RemoteAddr :: string
  URL_Path :: string

text \<open>
  What is observed of the response: the headers this handler sets, and how it ends:
  the request handed to \<^verbatim>\<open>next.ServeHTTP\<close>, answered with \<^verbatim>\<open>http.Error\<close> and a status,
  or a panic of the handler. The text of an error body is not modelled.
\<close>

datatype Outcome = Forwarded | HttpError nat | Panicked panic

record Response =
  header :: "string \<rightharpoonup> string"
  outcome :: Outcome

definition QueryArkAuth :: string where
  "QueryArkAuth = ''arkauth''"

definition forwardHeaderName :: string where
  "forwardHeaderName = ''X-Forwarded-For''"

definition xRealIPName :: string where
  "xRealIPName = ''X-Real-Ip''"

definition getRemoteAddr :: "Request \<Rightarrow> string" where
  "getRemoteAddr r =
     (let realIP = Header_Get r xRealIPName in
      if realIP \<noteq> [] then realIP
      else let forwardIP = Header_Get r forwardHeaderName in
           if forwardIP \<noteq> [] then forwardIP
           else RemoteAddr r)"

text \<open>\<^verbatim>\<open>strings.Join(elems, sep)\<close>\<close>

fun Join :: "string list \<Rightarrow> string \<Rightarrow> string" where
  "Join [] sep = []"
| "Join [x] sep = x"
| "Join (x # y # ys) sep = x @ sep @ Join (y # ys) sep"

definition enableCORS :: "(string \<rightharpoonup> string) \<Rightarrow> CORs \<Rightarrow> (string \<rightharpoonup> string)" where
  "enableCORS w cors =
     (let w = (if length (AllowOrigins cors) > 0
               then w(''Access-Control-Allow-Origin'' \<mapsto> Join (AllowOrigins cors) '', '') else w);
          w = (if length (AllowMethods cors) > 0
               then w(''Access-Control-Allow-Methods'' \<mapsto> Join (AllowMethods cors) '', '') else w);
          w = (if length (AllowHeaders cors) > 0
               then w(''Access-Control-Allow-Headers'' \<mapsto> Join (AllowHeaders cors) '', '') else w)
      in w)"

text \<open>
  The first lines of the handler: \<^verbatim>\<open>raw, aaOK := args[QueryArkAuth]\<close>, and
  \<^verbatim>\<open>parseArkAuth(raw[0])\<close> when the parameter is there. Without the parameter the
  proof is the zero value.
\<close>

definition auth_proof :: "Request \<Rightarrow> (error + ArkAuth) go" where
  "auth_proof r =
     (case Query r QueryArkAuth of
        None \<Rightarrow> Returns (Inr ArkAuth_zero)
      | Some raw \<Rightarrow>
          (case raw of
             [] \<Rightarrow> Panics (IndexOutOfRange 0 0)
           | r0 # _ \<Rightarrow> Returns (parseArkAuth r0)))"

text \<open>
  The block \<^verbatim>\<open>if contract.Id > 0 { ... }\<close>: the CORS headers, the IP whitelist (403) and
  the per-user rate limit (429), at clock reading \<open>now\<close>. \<open>Inl\<close> is a response that
  ends the request, \<open>Inr\<close> the headers to go on with; the state afterwards.
\<close>

definition auth_policy ::
  "'s Collaborators \<Rightarrow> 's Proxy \<Rightarrow> Contract \<Rightarrow> string \<Rightarrow> (string \<rightharpoonup> string) \<Rightarrow> int \<Rightarrow>
   (Response + (string \<rightharpoonup> string)) \<times> 's Proxy" where
  "auth_policy env p contract remoteAddr w now =
     (if Contract.Id contract > 0
      then
        let conf = ContractConfigStore p (Contract.Id contract);
            w = enableCORS w (CORs conf)
        in if length (WhitelistIPAddresses conf) > 0 \<and>
              \<not> (\<exists>ip \<in> set (WhitelistIPAddresses conf). EqualFold env remoteAddr ip)
           then (Inl \<lparr>header = w, outcome = HttpError 403\<rparr>, p)
           else if PerUserRateLimit conf > 0
           then
             let (limited, vis) =
                   isRateLimited env (visitors p) (Contract.Id contract) remoteAddr
                     (PerUserRateLimit conf) now;
                 p = p\<lparr>visitors := vis\<rparr>
             in if limited then (Inl \<lparr>header = w, outcome = HttpError 429\<rparr>, p)
                else (Inr w, p)
           else (Inr w, p)
      else (Inr w, p))"

text \<open>
  The block under \<^verbatim>\<open>if err == nil && (contract.Authorization == OPEN || aa.Validate(...) == nil)\<close>:
  the \<^verbatim>\<open>tier\<close> header, the service of the path (\<^verbatim>\<open>parts[1]\<close> panics on a path without
  \<^verbatim>\<open>/\<close>; \<^verbatim>\<open>err.Error()\<close> panics when \<^verbatim>\<open>NewService\<close> succeeded and the service differs),
  then \<^verbatim>\<open>paidTier\<close>. \<open>Inl\<close> is a response that ends the request, \<open>Inr\<close> the headers
  with which the handler falls through to the free tier.
\<close>

definition auth_paid ::
  "'s Collaborators \<Rightarrow> 's Proxy \<Rightarrow> Request \<Rightarrow> Contract \<Rightarrow> ArkAuth \<Rightarrow> string \<Rightarrow>
   (string \<rightharpoonup> string) \<Rightarrow> int \<Rightarrow> (Response + (string \<rightharpoonup> string)) \<times> 's Proxy" where
  "auth_paid env p r contract aa remoteAddr w now =
     (let w = w(''tier'' \<mapsto> ''paid'');
          parts = Split (URL_Path r) CHR ''/''
      in if \<not> 1 < length parts
         then (Inl \<lparr>header = w, outcome = Panicked (IndexOutOfRange 1 (length parts))\<rparr>, p)
         else
           let serviceName = parts ! 1 in
           case NewService env serviceName of
             Inl err \<Rightarrow> (Inl \<lparr>header = w, outcome = HttpError 401\<rparr>, p)
           | Inr ser \<Rightarrow>
               if ser \<noteq> Contract.Service contract
               then (Inl \<lparr>header = w, outcome = Panicked NilDereference\<rparr>, p)
               else
                 (case paidTier env p aa remoteAddr now of
                    (Panics x, p) \<Rightarrow> (Inl \<lparr>header = w, outcome = Panicked x\<rparr>, p)
                  | (Returns (httpCode, err), p) \<Rightarrow>
                      if err = None then (Inl \<lparr>header = w, outcome = Forwarded\<rparr>, p)
                      else (Inr w, p)))"

text \<open>The last lines of the handler: the \<^verbatim>\<open>tier\<close> header, \<^verbatim>\<open>freeTier\<close>, and the end.\<close>

definition auth_free ::
  "'s Collaborators \<Rightarrow> 's Proxy \<Rightarrow> string \<Rightarrow> (string \<rightharpoonup> string) \<Rightarrow> int \<Rightarrow> Response \<times> 's Proxy" where
  "auth_free env p remoteAddr w now =
     (let w = w(''tier'' \<mapsto> ''free'') in
      case freeTier env p remoteAddr now of
        ((httpCode, err), p) \<Rightarrow>
          if err \<noteq> None then (\<lparr>header = w, outcome = HttpError httpCode\<rparr>, p)
          else (\<lparr>header = w, outcome = Forwarded\<rparr>, p))"

text \<open>
  \<^verbatim>\<open>func (p Proxy) auth(next http.Handler) http.Handler\<close>: one request against the
  state \<open>p\<close>. The three limiter calls a request can make read the clock one after the
  other: \<open>t1\<close> (per-user limit), \<open>t2\<close> (\<^verbatim>\<open>paidTier\<close>), \<open>t3\<close> (\<^verbatim>\<open>freeTier\<close>).
\<close>

definition auth ::
  "'s Collaborators \<Rightarrow> 's Proxy \<Rightarrow> Request \<Rightarrow> int \<Rightarrow> int \<Rightarrow> int \<Rightarrow> Response \<times> 's Proxy" where
  "auth env p r t1 t2 t3 =
     (case auth_proof r of
        Panics x \<Rightarrow> (\<lparr>header = Map.empty, outcome = Panicked x\<rparr>, p)
      | Returns (Inl err) \<Rightarrow> (\<lparr>header = Map.empty, outcome = HttpError 400\<rparr>, p)
      | Returns (Inr aa) \<Rightarrow>
          let remoteAddr = getRemoteAddr r;
              (contract, err) = MemStore_Get (MemStore p) (FormatUint (ArkAuth.ContractId aa))
          in case auth_policy env p contract remoteAddr Map.empty t1 of
               (Inl resp, p) \<Rightarrow> (resp, p)
             | (Inr w, p) \<Rightarrow>
                 if err = None \<and>
                    (Authorization contract = OPEN \<or>
                     ArkAuth_Validate env aa (ProviderPubKey (Config p)) = None)
                 then (case auth_paid env p r contract aa remoteAddr w t2 of
                         (Inl resp, p) \<Rightarrow> (resp, p)
                       | (Inr w, p) \<Rightarrow> auth_free env p remoteAddr w t3)
                 else auth_free env p remoteAddr w t3)"

section \<open>A sample deployment\<close>

text \<open>
  One pay-as-you-go contract (id 7, rate 10, deposit 100, one query per minute, service
  1), a provider whose collaborators accept the service name \<^verbatim>\<open>btc\<close> and any
  non-empty signature, empty claim store and limiter registry. The concrete requests
  of the theorems below run against it.

  The limiter of the sample is a token bucket with exact arithmetic: the bookkeeping is
  the pair of the tokens held (counted as the nanoseconds it took to accrue them) and
  the time of the last update; a new bucket is full, tokens accrue with the clock up to
  the burst, and a call is allowed, and takes a token, when a whole token is there.
  It stands in for the library in the concrete requests only, whose clock readings
  (0, 30 and 60 seconds) leave the bucket whole tokens or half a token away from the
  decision. The case folding of the sample is that of the letters A to Z.
\<close>

definition ex_init :: "int \<Rightarrow> int \<Rightarrow> int \<times> int" where
  "ex_init d b = (b * d, 0)"

definition ex_advance :: "int \<Rightarrow> int \<Rightarrow> int \<times> int \<Rightarrow> int \<Rightarrow> int" where
  "ex_advance d b s t =
     (let last' = (if t < snd s then t else snd s);
          tokens = fst s + (t - last')
      in if tokens > b * d then b * d else tokens)"

definition ex_allow :: "int \<Rightarrow> int \<Rightarrow> int \<times> int \<Rightarrow> int \<Rightarrow> bool \<times> (int \<times> int)" where
  "ex_allow d b s t =
     (let tokens = ex_advance d b s t - d
      in if 1 \<le> b \<and> 0 \<le> tokens then (True, (tokens, t)) else (False, s))"

definition ex_lower :: "char \<Rightarrow> char" where
  "ex_lower c =
     (case map_of (zip ''ABCDEFGHIJKLMNOPQRSTUVWXYZ'' ''abcdefghijklmnopqrstuvwxyz'') c of
        None \<Rightarrow> c
      | Some l \<Rightarrow> l)"

definition ex_EqualFold :: "string \<Rightarrow> string \<Rightarrow> bool" where
  "ex_EqualFold s t = (map ex_lower s = map ex_lower t)"

definition ex_contract :: Contract where
  "ex_contract =
     \<lparr>Id = 7, Type = PAY_AS_YOU_GO, Authorization = RESTRICTED, Service = 1,
      Rate = \<lparr>Denom = ''uarkeo'', Amount = Some 10\<rparr>, Deposit = Some 100,
      Contract.Nonce = 0, QueriesPerMinute = 1, Height = 10, Duration = 100,
      SettlementDuration = 10\<rparr>"

definition ex_env :: "(int \<times> int) Collaborators" where
  "ex_env =
     \<lparr>IsExpired = (\<lambda>c h. sint (Height c) + sint (Duration c) + sint (SettlementDuration c) < sint h),
      NewService = (\<lambda>s. if s = ''btc'' then Inr 1 else Inl (ErrCollaborator ''unknown service'')),
      GetMyAddress = (\<lambda>pk. Inr pk),
      ValidateBasic = (\<lambda>m. if MsgClaimContractIncome.Signature m = []
                            then Some (ErrCollaborator ''invalid signature'') else None),
      Limiter_init = ex_init,
      Limiter_allow = ex_allow,
      EqualFold = ex_EqualFold\<rparr>"

definition ex_memstore :: "Contract \<Rightarrow> MemStore" where
  "ex_memstore c =
     \<lparr>db = (\<lambda>k. if k = ''7'' then (c, None)
                else (c\<lparr>Contract.Id := 0\<rparr>, Some (ErrCollaborator ''not found''))),
      blockHeight = 50\<rparr>"

definition ex_claimstore :: "(string \<rightharpoonup> Claim) \<Rightarrow> ClaimStore" where
  "ex_claimstore m = \<lparr>claims = m, read_fails = (\<lambda>k. False), write_fails = (\<lambda>c. False)\<rparr>"

definition ex_config :: "string list \<Rightarrow> ContractConfig" where
  "ex_config whitelist =
     \<lparr>CORs = \<lparr>AllowOrigins = [], AllowMethods = [], AllowHeaders = []\<rparr>,
      WhitelistIPAddresses = whitelist, PerUserRateLimit = 0\<rparr>"

definition ex_proxy ::
  "Contract \<Rightarrow> (string \<rightharpoonup> Claim) \<Rightarrow> string list \<Rightarrow> (int \<times> int) Proxy" where
  "ex_proxy c m whitelist =
     \<lparr>Config = \<lparr>ProviderPubKey = ''tarkeopub1'', FreeTierRateLimit = 1\<rparr>,
      MemStore = ex_memstore c,
      ClaimStore = ex_claimstore m,
      ContractConfigStore = (\<lambda>i. ex_config whitelist),
      visitors = Map.empty\<rparr>"

definition ex_proof :: "i64 \<Rightarrow> ArkAuth" where
  "ex_proof n = \<lparr>ArkAuth.ContractId = 7, Spender = [], Nonce = n, ArkAuth.Signature = [171]\<rparr>"

definition ex_claim :: "i64 \<Rightarrow> Claim" where
  "ex_claim n = NewClaim 7 [] n ''ab''"

definition ex_request :: "string \<Rightarrow> Request" where
  "ex_request raw =
     \<lparr>Query = [''arkauth'' \<mapsto> [raw]], Header_Get = (\<lambda>h. []), RemoteAddr = ''1.1.1.1'',
      URL_Path = ''/btc/status''\<rparr>"

section \<open>Properties of the codecs\<close>

subsection \<open>Decimal numbers\<close>

lemma digit_val_digits10:
  assumes "d < 10"
  shows "digit_val (digits10 ! d) = Some d"
proof -
  from assms have "d \<in> {0,1,2,3,4,5,6,7,8,9}" by simp arith
  then show ?thesis
    by (elim insertE emptyE) (simp_all add: digits10_def digit_val_def)
qed

lemma parse_digits_snoc:
  "parse_digits n (cs @ [c]) =
     (case parse_digits n cs of Inl e \<Rightarrow> Inl e | Inr m \<Rightarrow> parse_digits m [c])"
  by (induction cs arbitrary: n) (auto split: option.splits sum.splits)

lemma parse_digits_dec: "n \<le> maxUint64 \<Longrightarrow> parse_digits 0 (dec n) = Inr n"
proof (induction n rule: dec.induct)
  case (1 n)
  show ?case
  proof (cases "n < 10")
    case True
    then show ?thesis using 1(2) by (subst dec.simps) (simp add: digit_val_digits10 maxUint64_def)
  next
    case False
    have a: "n div 10 \<le> maxUint64" using 1(2) by simp
    have ih: "parse_digits 0 (dec (n div 10)) = Inr (n div 10)" using 1(1) [OF False a] .
    have b: "\<not> maxUint64 div 10 + 1 \<le> n div 10" using 1(2) by (simp add: maxUint64_def)
    have c: "n div 10 * 10 + n mod 10 = n" by simp
    show ?thesis using False 1(2) b
      by (subst dec.simps) (simp add: parse_digits_snoc ih digit_val_digits10 c)
  qed
qed

lemma dec_not_Nil: "dec n \<noteq> []"
  by (subst dec.simps) simp

lemma set_dec: "set (dec n) \<subseteq> set digits10"
proof (induction n rule: dec.induct)
  case (1 n)
  show ?case
  proof (cases "n < 10")
    case True
    then have "digits10 ! n \<in> set digits10" by (intro nth_mem) (simp add: digits10_def)
    then show ?thesis using True by (subst dec.simps) simp
  next
    case False
    have "digits10 ! (n mod 10) \<in> set digits10" by (intro nth_mem) (simp add: digits10_def)
    then show ?thesis using False 1 by (subst dec.simps) simp
  qed
qed

lemma colon_notin_dec: "CHR '':'' \<notin> set (dec n)"
  using set_dec [of n] by (auto simp: digits10_def)

lemma sign_notin_dec: "CHR ''-'' \<notin> set (dec n)" "CHR ''+'' \<notin> set (dec n)"
  using set_dec [of n] by (auto simp: digits10_def)

lemma ParseUint_FormatUint: "ParseUint (FormatUint w) = Inr w"
proof -
  have "unat w \<le> maxUint64"
    using unsigned_less [of w, where 'a = nat] by (simp add: maxUint64_def)
  then show ?thesis
    by (simp add: ParseUint_def FormatUint_def dec_not_Nil parse_digits_dec)
qed

lemma ParseUint_dec: "n \<le> maxUint64 \<Longrightarrow> ParseUint (dec n) = Inr (word_of_nat n)"
  by (simp add: ParseUint_def dec_not_Nil parse_digits_dec)

lemma hd_dec_no_sign: "dec n = c # cs \<Longrightarrow> c \<noteq> CHR ''-'' \<and> c \<noteq> CHR ''+''"
  using sign_notin_dec [of n] by auto

lemma ParseInt_FormatInt: "ParseInt (FormatInt w) = Inr w"
proof (cases "sint w < 0")
  case True
  define m where "m = nat (- sint w)"
  have lo: "- (2 ^ 63) \<le> sint w" using sint_ge [of w] by simp
  have m_le: "m \<le> 2 ^ 63" using lo True by (simp add: m_def)
  then have m_max: "m \<le> maxUint64" by (simp add: maxUint64_def)
  have w_eq: "(word_of_nat m :: 64 word) = - w"
  proof -
    have "(word_of_nat m :: 64 word) = word_of_int (int m)" by simp
    also have "int m = - sint w" using True by (simp add: m_def)
    finally show ?thesis by simp
  qed
  have un: "unat (- w) = m"
    using m_le unat_of_nat [of m, where 'a = 64] by (simp add: w_eq)
  show ?thesis
    using True m_le
    by (simp add: ParseInt_def FormatInt_def m_def [symmetric] ParseUint_dec [OF m_max] un w_eq)
next
  case False
  define m where "m = nat (sint w)"
  have hi: "sint w < 2 ^ 63" using sint_lt [of w] by simp
  have m_lt: "m < 2 ^ 63" using hi False by (simp add: m_def)
  then have m_max: "m \<le> maxUint64" by (simp add: maxUint64_def)
  have w_eq: "(word_of_nat m :: 64 word) = w"
  proof -
    have "(word_of_nat m :: 64 word) = word_of_int (int m)" by simp
    also have "int m = sint w" using False by (simp add: m_def)
    finally show ?thesis by simp
  qed
  have un: "unat w = m" using m_lt by (intro of_nat_inverse [OF w_eq]) simp
  obtain c cs where d: "dec m = c # cs" using dec_not_Nil [of m] by (cases "dec m") auto
  have ns: "c \<noteq> CHR ''-'' \<and> c \<noteq> CHR ''+''" using hd_dec_no_sign [OF d] .
  have pu: "ParseUint (c # cs) = Inr w" using ParseUint_dec [OF m_max] d w_eq by simp
  show ?thesis
    using False m_lt ns
    by (simp add: ParseInt_def FormatInt_def m_def [symmetric] d pu un)
qed

subsection \<open>Hexadecimal text\<close>

lemma nibble_cases: "k < 16 \<Longrightarrow> k \<in> {0,1,2,3,4,5,6,7,8,9,10,11,12,13,14,15::nat}"
  by simp arith

lemma hi_nibble: "unat (drop_bit 4 (v :: byte)) < 16"
proof -
  have "unat v < 2 ^ 8" using unsigned_less [of v, where 'a = nat] by simp
  then show ?thesis by (simp add: unat_div drop_bit_eq_div)
qed

lemma and_15: "(v :: byte) AND 15 = take_bit 4 v"
  by (simp add: take_bit_eq_mask mask_eq_exp_minus_1)

lemma lo_nibble: "unat ((v :: byte) AND 15) < 16"
  unfolding and_15 by (simp add: unat_mod take_bit_eq_mod)

lemma byte_nibbles: "push_bit 4 (drop_bit 4 v) OR (v AND 15) = (v :: byte)"
proof -
  have "push_bit 4 (drop_bit 4 v) OR take_bit 4 v = push_bit 4 (drop_bit 4 v) + take_bit 4 v"
    by (rule disjunctive_add_eq_or [symmetric]) (simp add: bit_eq_iff bit_simps)
  also have "\<dots> = v" by (rule bits_ident)
  finally show ?thesis unfolding and_15 .
qed

lemma fromHexChar_hextable:
  assumes "k < 16"
  shows "fromHexChar (hextable ! k) = Some (word_of_nat k)"
  using nibble_cases [OF assms]
  by (elim insertE emptyE) (simp_all add: hextable_def fromHexChar_def digit_val_def)

lemma Decode_Encode: "DecodeString (EncodeToString vs) = Inr vs"
  by (induction vs) (simp_all add: fromHexChar_hextable hi_nibble lo_nibble byte_nibbles)

lemma colon_notin_hex: "CHR '':'' \<notin> set (EncodeToString vs)"
proof (induction vs)
  case Nil then show ?case by simp
next
  case (Cons v vs)
  have "hextable ! k \<noteq> CHR '':''" if "k < 16" for k
    using nibble_cases [OF that] by (auto simp: hextable_def)
  from this [OF hi_nibble [of v]] this [OF lo_nibble [of v]] Cons show ?case
    by (simp del: drop_bit_word_numeral)
qed

lemma colon_notin_FormatUint: "CHR '':'' \<notin> set (FormatUint w)"
  by (simp add: FormatUint_def colon_notin_dec)

lemma colon_notin_FormatInt: "CHR '':'' \<notin> set (FormatInt w)"
  by (simp add: FormatInt_def colon_notin_dec)

lemma takeWhile_sep: "sep \<notin> set a \<Longrightarrow> takeWhile (\<lambda>c. c \<noteq> sep) (a @ sep # r) = a"
  by (induction a) auto

lemma dropWhile_sep: "sep \<notin> set a \<Longrightarrow> dropWhile (\<lambda>c. c \<noteq> sep) (a @ sep # r) = sep # r"
  by (induction a) auto


subsection \<open>Splitting\<close>

lemma SplitN_2:
  "SplitN s sep 2 =
     (if sep \<in> set s
      then [takeWhile (\<lambda>c. c \<noteq> sep) s, tl (dropWhile (\<lambda>c. c \<noteq> sep) s)]
      else [s])"
  by (simp add: numeral_2_eq_2)

lemma SplitN_3:
  "SplitN s sep 3 =
     (if sep \<in> set s
      then takeWhile (\<lambda>c. c \<noteq> sep) s # SplitN (tl (dropWhile (\<lambda>c. c \<noteq> sep) s)) sep 2
      else [s])"
proof -
  have "SplitN s sep 3 = SplitN s sep (Suc (Suc (Suc 0)))"
    by (simp only: numeral_3_eq_3)
  also have "\<dots> =
     (if sep \<in> set s
      then takeWhile (\<lambda>c. c \<noteq> sep) s # SplitN (tl (dropWhile (\<lambda>c. c \<noteq> sep) s)) sep (Suc (Suc 0))
      else [s])"
    by (simp only: SplitN.simps)
  finally show ?thesis by (simp only: numeral_2_eq_2)
qed

lemma SplitN_three:
  "sep \<notin> set a \<Longrightarrow> sep \<notin> set b \<Longrightarrow> SplitN (a @ sep # b @ sep # c) sep 3 = [a, b, c]"
  by (simp add: SplitN_3 SplitN_2 takeWhile_sep dropWhile_sep)

lemma SplitN_no_sep: "sep \<notin> set s \<Longrightarrow> SplitN s sep 3 = [s]"
  by (simp add: SplitN_3)

subsection \<open>The delegated-spender proof\<close>

lemma parseArkAuth_String:
  "parseArkAuth (ArkAuth_String p) = Inr (p\<lparr>ArkAuth.Spender := []\<rparr>)"
proof -
  have s: "SplitN (ArkAuth_String p) CHR '':'' 3 =
      [FormatUint (ArkAuth.ContractId p), FormatInt (ArkAuth.Nonce p),
       EncodeToString (ArkAuth.Signature p)]"
    unfolding ArkAuth_String_def GenerateArkAuthString_def GenerateMessageToSign_def
    using SplitN_three [OF colon_notin_FormatUint colon_notin_FormatInt] by simp
  show ?thesis
    by (simp add: parseArkAuth_def s ParseUint_FormatUint ParseInt_FormatInt Decode_Encode
        ArkAuth_zero_def)
qed

text \<open>
  C6 (as the code has it). The serialization \<^verbatim>\<open>"<id>:<nonce>:<hex signature>"\<close> has no
  field for the spender and \<^verbatim>\<open>parseArkAuth\<close> never assigns it. Parsing the serialization
  of a proof \<open>p\<close> always succeeds and restores the contract id, the nonce and the
  signature of \<open>p\<close>, with an empty spender; the round trip gives \<open>p\<close> again exactly
  when the spender of \<open>p\<close> is empty.
\<close>

theorem parseArkAuth_roundtrip:
  "parseArkAuth (ArkAuth_String p) = Inr (p\<lparr>ArkAuth.Spender := []\<rparr>) \<and>
   (parseArkAuth (ArkAuth_String p) = Inr p) = (ArkAuth.Spender p = [])"
proof -
  have "(p\<lparr>ArkAuth.Spender := []\<rparr> = p) = (ArkAuth.Spender p = [])"
    by (cases p) auto
  then show ?thesis by (simp add: parseArkAuth_String)
qed

text \<open>
  C6 as stated fails: a proof with a spender key does not come back from its own
  serialization \<^verbatim>\<open>"7:5:ab"\<close>.
\<close>

theorem parseArkAuth_roundtrip_counterexample:
  "ArkAuth_String \<lparr>ArkAuth.ContractId = 7, Spender = ''tarkeopub1'', Nonce = 5,
                   ArkAuth.Signature = [171]\<rparr> = ''7:5:ab'' \<and>
   parseArkAuth ''7:5:ab'' =
     Inr \<lparr>ArkAuth.ContractId = 7, Spender = [], Nonce = 5, ArkAuth.Signature = [171]\<rparr> \<and>
   parseArkAuth (ArkAuth_String \<lparr>ArkAuth.ContractId = 7, Spender = ''tarkeopub1'', Nonce = 5,
                   ArkAuth.Signature = [171]\<rparr>) \<noteq>
     Inr \<lparr>ArkAuth.ContractId = 7, Spender = ''tarkeopub1'', Nonce = 5, ArkAuth.Signature = [171]\<rparr>"
proof -
  have a: "ArkAuth_String \<lparr>ArkAuth.ContractId = 7, Spender = ''tarkeopub1'', Nonce = 5,
                   ArkAuth.Signature = [171]\<rparr> = ''7:5:ab''"
    by (simp add: ArkAuth_String_def GenerateArkAuthString_def GenerateMessageToSign_def
        FormatUint_def FormatInt_def dec.simps digits10_def hextable_def)
  have b: "parseArkAuth ''7:5:ab'' =
     Inr \<lparr>ArkAuth.ContractId = 7, Spender = [], Nonce = 5, ArkAuth.Signature = [171]\<rparr>"
    by (simp add: parseArkAuth_def SplitN_3 SplitN_2 ParseUint_def ParseInt_def digit_val_def
        maxUint64_def fromHexChar_def ArkAuth_zero_def)
  show ?thesis unfolding a b by simp
qed

subsection \<open>The direct-client proof\<close>

text \<open>
  On a string without \<^verbatim>\<open>:\<close> there is one part. \<^verbatim>\<open>parseContractAuth\<close> returns the error
  of \<^verbatim>\<open>ParseUint\<close> if that part is not a number, and panics at \<^verbatim>\<open>parts[1]\<close> if it is;
  \<^verbatim>\<open>parseArkAuth\<close>, whose second guard is \<^verbatim>\<open>len(parts) > 1\<close>, returns a proof.
\<close>

lemma parseContractAuth_no_colon:
  "CHR '':'' \<notin> set raw \<Longrightarrow>
   parseContractAuth raw =
     (case ParseUint raw of
        Inl e \<Rightarrow> Returns (Inl e)
      | Inr v \<Rightarrow> Panics (IndexOutOfRange 1 1))"
  by (simp add: parseContractAuth_def SplitN_no_sep split: sum.splits)

lemma parseArkAuth_no_colon:
  "CHR '':'' \<notin> set raw \<Longrightarrow>
   parseArkAuth raw =
     (case ParseUint raw of
        Inl e \<Rightarrow> Inl e
      | Inr v \<Rightarrow> Inr (ArkAuth_zero\<lparr>ArkAuth.ContractId := v\<rparr>))"
  by (simp add: parseArkAuth_def SplitN_no_sep split: sum.splits)

text \<open>
  C7 (the code at the failing input). On the input \<^verbatim>\<open>"5"\<close>, a number with no colon
  separator, \<^verbatim>\<open>parseContractAuth\<close> does not return: it panics with an index out of
  range, reading \<^verbatim>\<open>parts[1]\<close> of a one-element slice.
\<close>

theorem parseContractAuth_number_without_colon_panics:
  "parseContractAuth ''5'' = Panics (IndexOutOfRange 1 1)"
  by (simp add: parseContractAuth_def SplitN_3 ParseUint_def digit_val_def maxUint64_def
      ContractAuth_zero_def)

section \<open>Validation of the direct-client proof\<close>

text \<open>
  C8. Validation of a direct-client proof against \<open>lastTimestamp\<close> and the client's
  public key: a contract id 0 is rejected; otherwise a timestamp less than or equal to
  \<open>lastTimestamp\<close> is rejected; otherwise a failure to recover the key from the
  client's public key is returned as that error, a signature that does not verify over
  \<^verbatim>\<open>"<contractId>:<timestamp>"\<close> is returned as an error, and the proof is accepted
  (\<open>None\<close>) exactly when the key is recovered and the signature verifies.
\<close>

theorem ContractAuth_Validate_correct:
  "(ContractAuth.ContractId ca = 0 \<longrightarrow>
      ContractAuth_Validate getpk verify ca lastTimestamp client = Some ErrContractIdZero) \<and>
   (ContractAuth.ContractId ca \<noteq> 0 \<and> sint (Timestamp ca) \<le> sint lastTimestamp \<longrightarrow>
      ContractAuth_Validate getpk verify ca lastTimestamp client = Some (ErrTimestamp lastTimestamp)) \<and>
   (ContractAuth.ContractId ca \<noteq> 0 \<and> sint lastTimestamp < sint (Timestamp ca) \<longrightarrow>
      ContractAuth_Validate getpk verify ca lastTimestamp client =
        (case getpk client of
           Inl err \<Rightarrow> Some err
         | Inr pk \<Rightarrow>
             if verify pk (FormatUint (ContractAuth.ContractId ca) @ '':'' @ FormatInt (Timestamp ca))
                  (ContractAuth.Signature ca)
             then None else Some ErrInvalidSignature)) \<and>
   ((ContractAuth_Validate getpk verify ca lastTimestamp client = None) =
     (ContractAuth.ContractId ca \<noteq> 0 \<and>
      sint lastTimestamp < sint (Timestamp ca) \<and>
      (\<exists>pk. getpk client = Inr pk \<and>
            verify pk (FormatUint (ContractAuth.ContractId ca) @ '':'' @ FormatInt (Timestamp ca))
              (ContractAuth.Signature ca))))"
  by (auto simp: ContractAuth_Validate_def Let_def split: sum.splits)

theorem ContractAuth_Validate_correct_witness:
  "ContractAuth_Validate (\<lambda>s. if s = ''tarkeopub1'' then Inr (1::nat) else Inl (ErrCollaborator ''bech32''))
     (\<lambda>pk msg sig. pk = 1 \<and> msg = ''7:100'' \<and> sig = [1, 2])
     \<lparr>ContractAuth.ContractId = 7, Timestamp = 100, ContractAuth.Signature = [1, 2]\<rparr> 99 ''tarkeopub1'' = None \<and>
   ContractAuth_Validate (\<lambda>s. if s = ''tarkeopub1'' then Inr (1::nat) else Inl (ErrCollaborator ''bech32''))
     (\<lambda>pk msg sig. pk = 1 \<and> msg = ''7:100'' \<and> sig = [1, 2])
     \<lparr>ContractAuth.ContractId = 7, Timestamp = 100, ContractAuth.Signature = [1, 2]\<rparr> 100 ''tarkeopub1'' =
       Some (ErrTimestamp 100) \<and>
   ContractAuth_Validate (\<lambda>s. if s = ''tarkeopub1'' then Inr (1::nat) else Inl (ErrCollaborator ''bech32''))
     (\<lambda>pk msg sig. pk = 1 \<and> msg = ''7:100'' \<and> sig = [1, 2])
     \<lparr>ContractAuth.ContractId = 0, Timestamp = 100, ContractAuth.Signature = [1, 2]\<rparr> 99 ''tarkeopub1'' =
       Some ErrContractIdZero \<and>
   ContractAuth_Validate (\<lambda>s. if s = ''tarkeopub1'' then Inr (1::nat) else Inl (ErrCollaborator ''bech32''))
     (\<lambda>pk msg sig. pk = 1 \<and> msg = ''7:100'' \<and> sig = [1, 2])
     \<lparr>ContractAuth.ContractId = 7, Timestamp = 100, ContractAuth.Signature = [3]\<rparr> 99 ''tarkeopub1'' =
       Some ErrInvalidSignature \<and>
   ContractAuth_Validate (\<lambda>s. if s = ''tarkeopub1'' then Inr (1::nat) else Inl (ErrCollaborator ''bech32''))
     (\<lambda>pk msg sig. pk = 1 \<and> msg = ''7:100'' \<and> sig = [1, 2])
     \<lparr>ContractAuth.ContractId = 7, Timestamp = 100, ContractAuth.Signature = [1, 2]\<rparr> 99 ''other'' =
       Some (ErrCollaborator ''bech32'')"
proof -
  let ?g = "\<lambda>s. if s = ''tarkeopub1'' then Inr (1::nat) else Inl (ErrCollaborator ''bech32'')"
  let ?v = "\<lambda>pk msg sig. pk = (1::nat) \<and> msg = ''7:100'' \<and> sig = [1, 2 :: byte]"
  have fu: "FormatUint 7 = ''7''" by (simp add: FormatUint_def dec.simps digits10_def)
  have fi: "FormatInt 100 = ''100''" by (simp add: FormatInt_def dec.simps digits10_def)
  show ?thesis
    using ContractAuth_Validate_correct [of "\<lparr>ContractAuth.ContractId = 7, Timestamp = 100, ContractAuth.Signature = [1, 2]\<rparr>" ?g ?v 99 "''tarkeopub1''"]
      ContractAuth_Validate_correct [of "\<lparr>ContractAuth.ContractId = 7, Timestamp = 100, ContractAuth.Signature = [1, 2]\<rparr>" ?g ?v 100 "''tarkeopub1''"]
      ContractAuth_Validate_correct [of "\<lparr>ContractAuth.ContractId = 0, Timestamp = 100, ContractAuth.Signature = [1, 2]\<rparr>" ?g ?v 99 "''tarkeopub1''"]
      ContractAuth_Validate_correct [of "\<lparr>ContractAuth.ContractId = 7, Timestamp = 100, ContractAuth.Signature = [3]\<rparr>" ?g ?v 99 "''tarkeopub1''"]
      ContractAuth_Validate_correct [of "\<lparr>ContractAuth.ContractId = 7, Timestamp = 100, ContractAuth.Signature = [1, 2]\<rparr>" ?g ?v 99 "''other''"]
    by (simp add: fu fi)
qed

section \<open>Properties of the rate limiter registry\<close>

lemma Allow_keeps:
  "every (snd (Allow env lim t)) = every lim" "burst (snd (Allow env lim t)) = burst lim"
  by (simp_all add: Allow_def split: prod.splits)


lemma isRateLimited_eq:
  "isRateLimited env vis contractId key limitTokens now =
     (let k = FormatUint contractId @ ''-'' @ key;
          lim = (case vis k of None \<Rightarrow> NewLimiter env Minute limitTokens | Some l \<Rightarrow> l)
      in (\<not> fst (Allow env lim now), vis(k \<mapsto> snd (Allow env lim now))))"
  by (simp add: isRateLimited_def Let_def split: prod.splits)

lemma isRateLimited_other:
  "k \<noteq> FormatUint contractId @ ''-'' @ key \<Longrightarrow>
   snd (isRateLimited env vis contractId key limitTokens now) k = vis k"
  by (simp add: isRateLimited_eq Let_def)

lemma isRateLimited_seen:
  "vis (FormatUint contractId @ ''-'' @ key) = Some lim \<Longrightarrow>
   isRateLimited env vis contractId key limitTokens now =
     (\<not> fst (Allow env lim now), vis(FormatUint contractId @ ''-'' @ key \<mapsto> snd (Allow env lim now)))"
  by (simp add: isRateLimited_eq Let_def)



text \<open>The sample limiter.\<close>

lemma FormatUint_7: "FormatUint 7 = ''7''"
  by (simp add: FormatUint_def dec.simps digits10_def)

lemma ex_Allow:
  "Allow ex_env lim t =
     (case ex_allow (every lim) (burst lim) (state lim) t of (ok, s) \<Rightarrow> (ok, lim\<lparr>state := s\<rparr>))"
  by (simp add: Allow_def ex_env_def)

lemma ex_NewLimiter: "NewLimiter ex_env d b = \<lparr>every = d, burst = b, state = (b * d, 0)\<rparr>"
  by (simp add: NewLimiter_def ex_env_def ex_init_def)

lemmas ex_limiter = isRateLimited_eq ex_Allow ex_NewLimiter ex_allow_def ex_advance_def Minute_def Let_def




lemma isRateLimited_keeps_burst:
  assumes "vis k = Some lim"
  shows "\<exists>lim'. snd (isRateLimited env vis contractId key q now) k = Some lim' \<and>
               burst lim' = burst lim \<and> every lim' = every lim"
proof (cases "k = FormatUint contractId @ ''-'' @ key")
  case True
  with assms show ?thesis
    by (simp add: isRateLimited_eq Let_def Allow_keeps)
next
  case False
  with assms show ?thesis
    by (simp add: isRateLimited_other)
qed

lemma isRateLimited_calls_keep_burst:
  "vis k = Some lim \<Longrightarrow>
   \<exists>lim'. foldl (\<lambda>v (c, key, q, t). snd (isRateLimited env v c key q t)) vis calls k = Some lim' \<and>
          burst lim' = burst lim \<and> every lim' = every lim"
proof (induction calls arbitrary: vis lim)
  case Nil
  then show ?case by simp
next
  case (Cons call calls)
  obtain c key q t where call: "call = (c, key, q, t)" by (cases call) auto
  from isRateLimited_keeps_burst [of vis k lim env c key q t, OF Cons.prems]
  obtain lim1 where l1: "snd (isRateLimited env vis c key q t) k = Some lim1"
    and b1: "burst lim1 = burst lim" "every lim1 = every lim" by blast
  from Cons.IH [of "snd (isRateLimited env vis c key q t)" lim1, OF l1] b1 show ?case by (simp add: call)
qed

text \<open>
  C10. The burst of a key's limiter is the quota of the call that creates it. A call on
  a key that has a limiter gives the same result and state whatever its quota argument
  and keeps the limiter's burst, and so does every sequence of later calls, on any keys
  and with any quotas.
\<close>

theorem isRateLimited_quota_fixed_at_creation:
  "(vis (FormatUint contractId @ ''-'' @ key) = None \<longrightarrow>
      (\<exists>lim. snd (isRateLimited env vis contractId key q now) (FormatUint contractId @ ''-'' @ key) = Some lim \<and>
             burst lim = q)) \<and>
   (\<forall>lim. vis (FormatUint contractId @ ''-'' @ key) = Some lim \<longrightarrow>
      isRateLimited env vis contractId key q now = isRateLimited env vis contractId key q' now \<and>
      (\<exists>lim'. snd (isRateLimited env vis contractId key q now) (FormatUint contractId @ ''-'' @ key) = Some lim' \<and>
              burst lim' = burst lim) \<and>
      (\<exists>lim'. foldl (\<lambda>v (c, key, q, t). snd (isRateLimited env v c key q t)) vis calls
                (FormatUint contractId @ ''-'' @ key) = Some lim' \<and>
              burst lim' = burst lim))"
proof (intro conjI impI allI)
  assume f: "vis (FormatUint contractId @ ''-'' @ key) = None"
  show "\<exists>lim. snd (isRateLimited env vis contractId key q now) (FormatUint contractId @ ''-'' @ key) = Some lim \<and>
             burst lim = q"
    using f by (simp add: isRateLimited_eq Let_def Allow_keeps NewLimiter_def)
next
  fix lim assume s: "vis (FormatUint contractId @ ''-'' @ key) = Some lim"
  show "isRateLimited env vis contractId key q now = isRateLimited env vis contractId key q' now"
    by (simp add: isRateLimited_seen [of vis contractId key, OF s])
  from isRateLimited_keeps_burst [of vis _ lim env contractId key q now, OF s]
  show "\<exists>lim'. snd (isRateLimited env vis contractId key q now) (FormatUint contractId @ ''-'' @ key) = Some lim' \<and>
              burst lim' = burst lim"
    by blast
  from isRateLimited_calls_keep_burst [of vis _ lim env calls, OF s]
  show "\<exists>lim'. foldl (\<lambda>v (c, key, q, t). snd (isRateLimited env v c key q t)) vis calls
                (FormatUint contractId @ ''-'' @ key) = Some lim' \<and>
              burst lim' = burst lim"
    by blast
qed

theorem isRateLimited_quota_fixed_at_creation_witness:
  "isRateLimited ex_env (snd (isRateLimited ex_env Map.empty 7 ''a'' 1 0)) 7 ''a'' 1 0 =
   isRateLimited ex_env (snd (isRateLimited ex_env Map.empty 7 ''a'' 1 0)) 7 ''a'' 100 0 \<and>
   fst (isRateLimited ex_env (snd (isRateLimited ex_env Map.empty 7 ''a'' 1 0)) 7 ''a'' 100 0) \<and>
   (\<exists>lim. snd (isRateLimited ex_env Map.empty 7 ''a'' 1 0) ''7-a'' = Some lim \<and> burst lim = 1) \<and>
   (\<exists>lim. snd (isRateLimited ex_env (snd (isRateLimited ex_env Map.empty 7 ''a'' 1 0)) 7 ''a'' 100 0) ''7-a'' =
            Some lim \<and>
          burst lim = 1)"
proof -
  let ?vis = "[''7-a'' \<mapsto> \<lparr>every = Minute, burst = 1, state = (0::int, 0::int)\<rparr>]"
  have v1: "snd (isRateLimited ex_env Map.empty 7 ''a'' 1 0) = ?vis"
    by (simp add: ex_limiter FormatUint_7)
  have k: "FormatUint 7 @ ''-'' @ ''a'' = ''7-a''" by (simp add: FormatUint_7)
  note fresh = isRateLimited_quota_fixed_at_creation [of Map.empty 7 "''a''" ex_env 1 0 1 "[]",
      THEN conjunct1, unfolded k]
  note seen = isRateLimited_quota_fixed_at_creation [of ?vis 7 "''a''" ex_env 1 0 100 "[]",
      THEN conjunct2, unfolded k, THEN spec, THEN mp]
  have s: "?vis ''7-a'' = Some \<lparr>every = Minute, burst = 1, state = (0::int, 0::int)\<rparr>" by simp
  have 1: "isRateLimited ex_env ?vis 7 ''a'' 1 0 = isRateLimited ex_env ?vis 7 ''a'' 100 0"
    by (rule seen [OF s, THEN conjunct1])
  from seen [OF s, THEN conjunct2, THEN conjunct1]
  have "\<exists>lim. snd (isRateLimited ex_env ?vis 7 ''a'' 1 0) ''7-a'' = Some lim \<and> burst lim = 1"
    by simp
  then have 4: "\<exists>lim. snd (isRateLimited ex_env ?vis 7 ''a'' 100 0) ''7-a'' = Some lim \<and> burst lim = 1"
    unfolding 1 .
  have 2: "fst (isRateLimited ex_env ?vis 7 ''a'' 100 0)"
    by (simp add: ex_limiter FormatUint_7)
  from fresh have 3: "\<exists>lim. snd (isRateLimited ex_env Map.empty 7 ''a'' 1 0) ''7-a'' = Some lim \<and> burst lim = 1"
    by simp
  from 1 2 3 4 show ?thesis unfolding v1 by blast
qed

section \<open>Properties of \<^verbatim>\<open>paidTier\<close>\<close>

lemmas ex_defs = ex_contract_def ex_env_def ex_memstore_def ex_claimstore_def ex_config_def
  ex_proxy_def ex_proof_def ex_claim_def

lemmas paid_defs = paidTier_def paidTier_claim_def paidTier_deposit_def MemStore_Get_def
  MemStore_GetHeight_def MemStore_Put_def ClaimStore_Has_def ClaimStore_Get_def ClaimStore_Set_def
  NewClaim_def Int64_def NewInt_def isRateLimited_def Allow_def NewLimiter_def ex_init_def ex_allow_def ex_advance_def Minute_def

lemma ex_accept: "fst (paidTier ex_env (ex_proxy ex_contract Map.empty []) (ex_proof 1) ''1.1.1.1'' 0) = Returns (200, None)"
  by (simp add: ex_defs paid_defs FormatUint_7 Let_def)

lemma ex_accept_claim: "claims (ClaimStore (snd (paidTier ex_env (ex_proxy ex_contract Map.empty []) (ex_proof 1) ''1.1.1.1'' 0))) ''7'' = Some (ex_claim 1)"
  by (simp add: ex_defs paid_defs FormatUint_7 Let_def hextable_def)

lemma ex_replay: "fst (paidTier ex_env (ex_proxy ex_contract [''7'' \<mapsto> ex_claim 5] []) (ex_proof 3) ''1.1.1.1'' 0) = Returns (400, Some (ErrBadNonce 3 5))"
  by (simp add: ex_defs paid_defs FormatUint_7 Let_def)


text \<open>
  C9. Whenever \<^verbatim>\<open>paidTier\<close> does not return \<^verbatim>\<open>(200, nil)\<close> (an error of any kind, or a
  panic), the claim store and the contract cache are what they were before the call.
  When it returns \<^verbatim>\<open>(200, nil)\<close>, every check has passed (the contract was read, is not
  expired, the nonce check and the deposit check passed, the limiter allowed the call),
  the claim was written with \<^verbatim>\<open>ClaimStore.Set\<close> and the contract was put back with its
  nonce set to the proof's.
\<close>

theorem paidTier_atomic_on_rejection:
  assumes "MemStore_Get (MemStore p) (FormatUint (ArkAuth.ContractId aa)) = (contract, err)"
  shows
  "(fst (paidTier env p aa remoteAddr now) \<noteq> Returns (200, None) \<longrightarrow>
      ClaimStore (snd (paidTier env p aa remoteAddr now)) = ClaimStore p \<and>
      MemStore (snd (paidTier env p aa remoteAddr now)) = MemStore p) \<and>
   (fst (paidTier env p aa remoteAddr now) = Returns (200, None) \<longrightarrow>
      err = None \<and>
      \<not> IsExpired env contract (MemStore_GetHeight (MemStore p)) \<and>
      paidTier_deposit contract aa = Returns None \<and>
      \<not> fst (isRateLimited env (visitors p) (Contract.Id contract) (FormatUint (ArkAuth.ContractId aa))
              (sint (QueriesPerMinute contract)) now) \<and>
      (\<exists>claim.
          paidTier_claim (ClaimStore p) (FormatUint (ArkAuth.ContractId aa)) aa
            (NewClaim (ArkAuth.ContractId aa) (ArkAuth.Spender aa) (ArkAuth.Nonce aa)
               (EncodeToString (ArkAuth.Signature aa))) = Inr claim \<and>
          ClaimStore_Set (ClaimStore p)
            (claim\<lparr>Claim.Nonce := ArkAuth.Nonce aa,
                   Claim.Signature := EncodeToString (ArkAuth.Signature aa), Claimed := False\<rparr>) =
            Inr (ClaimStore (snd (paidTier env p aa remoteAddr now)))) \<and>
      MemStore (snd (paidTier env p aa remoteAddr now)) =
        MemStore_Put (MemStore p) (contract\<lparr>Contract.Nonce := ArkAuth.Nonce aa\<rparr>))"
  using assms
  by (auto simp: paidTier_def Let_def split: prod.splits option.splits sum.splits go.splits if_splits)

theorem paidTier_atomic_on_rejection_witness:
  "fst (paidTier ex_env (ex_proxy ex_contract [''7'' \<mapsto> ex_claim 5] []) (ex_proof 3) ''1.1.1.1'' 0) =
     Returns (400, Some (ErrBadNonce 3 5)) \<and>
   ClaimStore (snd (paidTier ex_env (ex_proxy ex_contract [''7'' \<mapsto> ex_claim 5] []) (ex_proof 3) ''1.1.1.1'' 0)) =
     ex_claimstore [''7'' \<mapsto> ex_claim 5] \<and>
   MemStore (snd (paidTier ex_env (ex_proxy ex_contract [''7'' \<mapsto> ex_claim 5] []) (ex_proof 3) ''1.1.1.1'' 0)) =
     ex_memstore ex_contract \<and>
   fst (paidTier ex_env (ex_proxy ex_contract Map.empty []) (ex_proof 1) ''1.1.1.1'' 0) = Returns (200, None) \<and>
   MemStore (snd (paidTier ex_env (ex_proxy ex_contract Map.empty []) (ex_proof 1) ''1.1.1.1'' 0)) =
     MemStore_Put (ex_memstore ex_contract) (ex_contract\<lparr>Contract.Nonce := 1\<rparr>)"
proof -
  have g: "MemStore_Get (MemStore (ex_proxy ex_contract m [])) (FormatUint (ArkAuth.ContractId (ex_proof n))) =
      (ex_contract, None)" for m n
    by (simp add: ex_proxy_def ex_memstore_def ex_proof_def MemStore_Get_def FormatUint_7)
  have m: "MemStore (ex_proxy ex_contract m []) = ex_memstore ex_contract"
    and c: "ClaimStore (ex_proxy ex_contract m []) = ex_claimstore m" for m
    by (simp_all add: ex_proxy_def)
  show ?thesis
    using paidTier_atomic_on_rejection [OF g, of ex_env "[''7'' \<mapsto> ex_claim 5]" 3 "''1.1.1.1''" 0]
      paidTier_atomic_on_rejection [OF g, of ex_env Map.empty 1 "''1.1.1.1''" 0]
    by (simp add: ex_replay [unfolded ex_proof_def] ex_accept [unfolded ex_proof_def] m c ex_proof_def)
qed

text \<open>
  C1 (as the code has it). \<^verbatim>\<open>paidTier\<close> compares the proof's nonce with the recorded
  claim's only: what it returns is the same whatever nonce the cached contract has (for
  an expiry test that does not read the nonce). If a claim is recorded for the
  contract, an accepted request has a nonce strictly greater than the claim's. A proof
  with a nonce less than or equal to it is never accepted, whatever its signature, and
  leaves the state untouched; the result is 500 if the contract cache fails, otherwise
  402 if the contract is expired, otherwise 500 if the claim cannot be read, and 400
  ("bad nonce") otherwise.
\<close>

theorem paidTier_nonce_above_recorded_claim:
  assumes "MemStore_Get (MemStore p) (FormatUint (ArkAuth.ContractId aa)) = (contract, err)"
  shows
  "(IsExpired env (contract\<lparr>Contract.Nonce := n\<rparr>) (MemStore_GetHeight (MemStore p)) =
      IsExpired env contract (MemStore_GetHeight (MemStore p)) \<longrightarrow>
    fst (paidTier env
           (p\<lparr>MemStore := (MemStore p)\<lparr>db := (db (MemStore p))
                 (FormatUint (ArkAuth.ContractId aa) := (contract\<lparr>Contract.Nonce := n\<rparr>, err))\<rparr>\<rparr>)
           aa remoteAddr now) =
    fst (paidTier env p aa remoteAddr now)) \<and>
   (\<forall>claim. claims (ClaimStore p) (FormatUint (ArkAuth.ContractId aa)) = Some claim \<longrightarrow>
      (fst (paidTier env p aa remoteAddr now) = Returns (code, None) \<longrightarrow>
         sint (Claim.Nonce claim) < sint (ArkAuth.Nonce aa)) \<and>
      (sint (ArkAuth.Nonce aa) \<le> sint (Claim.Nonce claim) \<longrightarrow>
         paidTier env p aa remoteAddr now =
           (Returns
              (case err of
                 Some e \<Rightarrow> (500, Some (ErrInternal e))
               | None \<Rightarrow>
                   if IsExpired env contract (MemStore_GetHeight (MemStore p))
                   then (402, Some ErrOpenAContract)
                   else (case ClaimStore_Get (ClaimStore p) (FormatUint (ArkAuth.ContractId aa)) of
                           Inl e \<Rightarrow> (500, Some (ErrInternal e))
                         | Inr c \<Rightarrow>
                             (400, Some (ErrBadNonce (ArkAuth.Nonce aa) (Claim.Nonce claim))))),
            p)))"
proof (intro conjI impI allI)
  assume "IsExpired env (contract\<lparr>Contract.Nonce := n\<rparr>) (MemStore_GetHeight (MemStore p)) =
      IsExpired env contract (MemStore_GetHeight (MemStore p))"
  with assms show "fst (paidTier env
           (p\<lparr>MemStore := (MemStore p)\<lparr>db := (db (MemStore p))
                 (FormatUint (ArkAuth.ContractId aa) := (contract\<lparr>Contract.Nonce := n\<rparr>, err))\<rparr>\<rparr>)
           aa remoteAddr now) =
    fst (paidTier env p aa remoteAddr now)"
    by (auto simp: paidTier_def paidTier_deposit_def MemStore_Get_def MemStore_GetHeight_def Let_def
        split: prod.splits option.splits sum.splits go.splits)
next
  fix claim
  assume "claims (ClaimStore p) (FormatUint (ArkAuth.ContractId aa)) = Some claim"
    and "fst (paidTier env p aa remoteAddr now) = Returns (code, None)"
  with assms show "sint (Claim.Nonce claim) < sint (ArkAuth.Nonce aa)"
    by (auto simp: paidTier_def paidTier_claim_def ClaimStore_Has_def ClaimStore_Get_def Let_def
        split: prod.splits option.splits sum.splits go.splits if_splits)
next
  fix claim
  assume "claims (ClaimStore p) (FormatUint (ArkAuth.ContractId aa)) = Some claim"
    and "sint (ArkAuth.Nonce aa) \<le> sint (Claim.Nonce claim)"
  with assms show "paidTier env p aa remoteAddr now =
           (Returns
              (case err of
                 Some e \<Rightarrow> (500, Some (ErrInternal e))
               | None \<Rightarrow>
                   if IsExpired env contract (MemStore_GetHeight (MemStore p))
                   then (402, Some ErrOpenAContract)
                   else (case ClaimStore_Get (ClaimStore p) (FormatUint (ArkAuth.ContractId aa)) of
                           Inl e \<Rightarrow> (500, Some (ErrInternal e))
                         | Inr c \<Rightarrow>
                             (400, Some (ErrBadNonce (ArkAuth.Nonce aa) (Claim.Nonce claim))))),
            p)"
    by (auto simp: paidTier_def paidTier_claim_def ClaimStore_Has_def ClaimStore_Get_def Let_def
        split: prod.splits option.splits sum.splits)
qed

theorem paidTier_nonce_above_recorded_claim_witness:
  "paidTier ex_env (ex_proxy ex_contract [''7'' \<mapsto> ex_claim 5] []) (ex_proof 3) ''1.1.1.1'' 0 =
     (Returns (400, Some (ErrBadNonce 3 5)), ex_proxy ex_contract [''7'' \<mapsto> ex_claim 5] []) \<and>
   paidTier ex_env (ex_proxy (ex_contract\<lparr>Duration := 1\<rparr>) [''7'' \<mapsto> ex_claim 5] []) (ex_proof 3) ''1.1.1.1'' 0 =
     (Returns (402, Some ErrOpenAContract), ex_proxy (ex_contract\<lparr>Duration := 1\<rparr>) [''7'' \<mapsto> ex_claim 5] []) \<and>
   fst (paidTier ex_env (ex_proxy ex_contract [''7'' \<mapsto> ex_claim 5] []) (ex_proof 6) ''1.1.1.1'' 0) =
     Returns (200, None) \<and>
   sint (Claim.Nonce (ex_claim 5)) < sint (ArkAuth.Nonce (ex_proof 6)) \<and>
   fst (paidTier ex_env
          ((ex_proxy ex_contract [''7'' \<mapsto> ex_claim 5] [])
             \<lparr>MemStore := (ex_memstore ex_contract)
                \<lparr>db := (db (ex_memstore ex_contract))(''7'' := (ex_contract\<lparr>Contract.Nonce := 10\<rparr>, None))\<rparr>\<rparr>)
          (ex_proof 6) ''1.1.1.1'' 0) = Returns (200, None)"
proof -
  let ?m = "[''7'' \<mapsto> ex_claim 5]"
  have g: "MemStore_Get (MemStore (ex_proxy c ?m [])) (FormatUint (ArkAuth.ContractId (ex_proof k))) =
      (c, None)" for c k
    by (simp add: ex_proxy_def ex_memstore_def ex_proof_def MemStore_Get_def FormatUint_7)
  have c: "claims (ClaimStore (ex_proxy c ?m [])) (FormatUint (ArkAuth.ContractId (ex_proof k))) =
      Some (ex_claim 5)" for c k
    by (simp add: ex_proxy_def ex_claimstore_def ex_proof_def FormatUint_7)
  have e: "ex_claim 5 = \<lparr>Claim.ContractId = 7, Claim.Spender = [], Claim.Nonce = 5,
      Claim.Signature = ''ab'', Claimed = False\<rparr>"
    by (simp add: ex_claim_def NewClaim_def)
  have x: "\<not> IsExpired ex_env (ex_contract\<lparr>Contract.Nonce := k\<rparr>) (MemStore_GetHeight (MemStore (ex_proxy c ?m [])))"
    "\<not> IsExpired ex_env ex_contract (MemStore_GetHeight (MemStore (ex_proxy c ?m [])))"
    "IsExpired ex_env (ex_contract\<lparr>Duration := 1\<rparr>) (MemStore_GetHeight (MemStore (ex_proxy c ?m [])))" for c k
    by (simp_all add: ex_proxy_def ex_memstore_def ex_env_def ex_contract_def MemStore_GetHeight_def)
  have r: "ClaimStore_Get (ClaimStore (ex_proxy c ?m [])) (FormatUint (ArkAuth.ContractId (ex_proof k))) =
      Inr (ex_claim 5)" for c k
    by (simp add: ex_proxy_def ex_claimstore_def ex_proof_def FormatUint_7 ClaimStore_Get_def)
  have a: "fst (paidTier ex_env (ex_proxy ex_contract ?m []) (ex_proof 6) ''1.1.1.1'' 0) = Returns (200, None)"
    by (simp add: ex_defs paid_defs FormatUint_7 Let_def)
  have xe: "IsExpired ex_env (ex_contract\<lparr>Contract.Nonce := 10\<rparr>) h = IsExpired ex_env ex_contract h" for h
    by (simp add: ex_env_def ex_contract_def)
  have ms: "MemStore (ex_proxy ex_contract ?m []) = ex_memstore ex_contract"
    and k7: "FormatUint (ArkAuth.ContractId (ex_proof 6)) = ''7''"
    by (simp_all add: ex_proxy_def ex_proof_def FormatUint_7)
  note t3 = paidTier_nonce_above_recorded_claim [OF g [of ex_contract 3], of ex_env 10 "''1.1.1.1''" 0 200,
      THEN conjunct2, THEN spec, THEN mp, OF c, THEN conjunct2, THEN mp]
  note tx = paidTier_nonce_above_recorded_claim
      [OF g [of "ex_contract\<lparr>Duration := 1\<rparr>" 3], of ex_env 10 "''1.1.1.1''" 0 200,
      THEN conjunct2, THEN spec, THEN mp, OF c, THEN conjunct2, THEN mp]
  note t6 = paidTier_nonce_above_recorded_claim [OF g [of ex_contract 6], of ex_env 10 "''1.1.1.1''" 0 200]
  have 1: "paidTier ex_env (ex_proxy ex_contract ?m []) (ex_proof 3) ''1.1.1.1'' 0 =
     (Returns (400, Some (ErrBadNonce 3 5)), ex_proxy ex_contract ?m [])"
    using t3 by (simp add: x r) (simp add: e ex_proof_def)
  have 2: "paidTier ex_env (ex_proxy (ex_contract\<lparr>Duration := 1\<rparr>) ?m []) (ex_proof 3) ''1.1.1.1'' 0 =
     (Returns (402, Some ErrOpenAContract), ex_proxy (ex_contract\<lparr>Duration := 1\<rparr>) ?m [])"
    using tx by (simp add: x) (simp add: e ex_proof_def)
  from t6 [THEN conjunct2, THEN spec, THEN mp, OF c, THEN conjunct1] a
  have 3: "sint (Claim.Nonce (ex_claim 5)) < sint (ArkAuth.Nonce (ex_proof 6))"
    by simp
  from t6 [THEN conjunct1] a
  have 4: "fst (paidTier ex_env
          ((ex_proxy ex_contract ?m [])
             \<lparr>MemStore := (ex_memstore ex_contract)
                \<lparr>db := (db (ex_memstore ex_contract))(''7'' := (ex_contract\<lparr>Contract.Nonce := 10\<rparr>, None))\<rparr>\<rparr>)
          (ex_proof 6) ''1.1.1.1'' 0) = Returns (200, None)"
    by (simp add: xe ms k7)
  from 1 2 a 3 4 show ?thesis by blast
qed

text \<open>
  C1 as stated fails: a contract whose current nonce is 10, with no recorded claim,
  accepts a proof with nonce 5; and with a claim of nonce 5 recorded, a proof with
  nonce 3 for an expired contract gets 402, not 400.
\<close>

theorem paidTier_nonce_counterexample:
  "Contract.Nonce (fst (MemStore_Get (MemStore (ex_proxy (ex_contract\<lparr>Contract.Nonce := 10\<rparr>) Map.empty []))
       (FormatUint (ArkAuth.ContractId (ex_proof 5))))) = 10 \<and>
   ArkAuth.Nonce (ex_proof 5) = 5 \<and>
   fst (paidTier ex_env (ex_proxy (ex_contract\<lparr>Contract.Nonce := 10\<rparr>) Map.empty []) (ex_proof 5) ''1.1.1.1'' 0) =
     Returns (200, None) \<and>
   claims (ClaimStore (ex_proxy (ex_contract\<lparr>Duration := 1\<rparr>) [''7'' \<mapsto> ex_claim 5] [])) ''7'' =
     Some (ex_claim 5) \<and>
   fst (paidTier ex_env (ex_proxy (ex_contract\<lparr>Duration := 1\<rparr>) [''7'' \<mapsto> ex_claim 5] []) (ex_proof 3) ''1.1.1.1'' 0) =
     Returns (402, Some ErrOpenAContract)"
  by (simp add: ex_defs paid_defs FormatUint_7 Let_def)

lemma sint_mult_no_overflow:
  assumes "- (2 ^ 63) \<le> r" "r < 2 ^ 63" "- (2 ^ 63) \<le> sint n * r" "sint n * r < 2 ^ 63"
  shows "sint (n * (word_of_int r :: 64 word)) = sint n * r"
proof -
  have r: "sint (word_of_int r :: 64 word) = r"
    using assms(1,2) by (simp add: sint_sbintrunc' signed_take_bit_int_eq_self)
  show ?thesis
    using assms(3,4) by (simp add: sint_word_mult r signed_take_bit_int_eq_self)
qed

lemma paidTier_deposit_no_overflow:
  assumes "Type contract = PAY_AS_YOU_GO" "Amount (Rate contract) = Some r"
    "- (2 ^ 63) \<le> r" "r < 2 ^ 63"
    "- (2 ^ 63) \<le> sint (ArkAuth.Nonce aa) * r" "sint (ArkAuth.Nonce aa) * r < 2 ^ 63"
  shows "paidTier_deposit contract aa =
     Returns (case Deposit contract of
                None \<Rightarrow> Some (402, ErrContractSpent)
              | Some d \<Rightarrow> if d < sint (ArkAuth.Nonce aa) * r then Some (402, ErrContractSpent) else None)"
  using assms(1-4) sint_mult_no_overflow [OF assms(3-6)]
  by (simp add: paidTier_deposit_def Int64_def NewInt_def split: option.splits)

text \<open>
  The deposit check where the product does not overflow. For a pay-as-you-go contract
  that is read from the cache, is not expired and whose nonce check passes, with rate
  \<open>r\<close> and proof nonce \<open>n\<close> whose product fits an \<^verbatim>\<open>int64\<close>: an unset deposit and a
  deposit \<open>d < n * r\<close> get 402 ("contract spent") and leave the state untouched; with
  \<open>d \<ge> n * r\<close>, the boundary \<open>d = n * r\<close> included, the result is never 402, and it
  is \<^verbatim>\<open>(200, nil)\<close> exactly when the limiter allows the call and the claim is written.
\<close>

lemma paidTier_deposit_check:
  assumes "MemStore_Get (MemStore p) (FormatUint (ArkAuth.ContractId aa)) = (contract, None)"
    and "\<not> IsExpired env contract (MemStore_GetHeight (MemStore p))"
    and "paidTier_claim (ClaimStore p) (FormatUint (ArkAuth.ContractId aa)) aa
           (NewClaim (ArkAuth.ContractId aa) (ArkAuth.Spender aa) (ArkAuth.Nonce aa)
              (EncodeToString (ArkAuth.Signature aa))) = Inr claim"
    and "Type contract = PAY_AS_YOU_GO"
    and "Amount (Rate contract) = Some r"
    and "- (2 ^ 63) \<le> r" "r < 2 ^ 63"
    and "- (2 ^ 63) \<le> sint (ArkAuth.Nonce aa) * r" "sint (ArkAuth.Nonce aa) * r < 2 ^ 63"
  shows
  "(Deposit contract = None \<longrightarrow>
      paidTier env p aa remoteAddr now = (Returns (402, Some ErrContractSpent), p)) \<and>
   (\<forall>d. Deposit contract = Some d \<longrightarrow>
      (d < sint (ArkAuth.Nonce aa) * r \<longrightarrow>
         paidTier env p aa remoteAddr now = (Returns (402, Some ErrContractSpent), p)) \<and>
      (sint (ArkAuth.Nonce aa) * r \<le> d \<longrightarrow>
         (\<forall>e. fst (paidTier env p aa remoteAddr now) \<noteq> Returns (402, e)) \<and>
         (fst (paidTier env p aa remoteAddr now) = Returns (200, None)) =
           (\<not> fst (isRateLimited env (visitors p) (Contract.Id contract) (FormatUint (ArkAuth.ContractId aa))
                    (sint (QueriesPerMinute contract)) now) \<and>
            \<not> write_fails (ClaimStore p)
                 (claim\<lparr>Claim.Nonce := ArkAuth.Nonce aa,
                        Claim.Signature := EncodeToString (ArkAuth.Signature aa),
                        Claimed := False\<rparr>))))"
  using assms(1-3) paidTier_deposit_no_overflow [OF assms(4-9)]
  by (auto simp: paidTier_def Let_def ClaimStore_Set_def
      split: prod.splits option.splits sum.splits go.splits if_splits)

lemma paidTier_deposit_check_sample:
  "fst (paidTier ex_env (ex_proxy ex_contract Map.empty []) (ex_proof 10) ''1.1.1.1'' 0) = Returns (200, None) \<and>
   paidTier ex_env (ex_proxy ex_contract Map.empty []) (ex_proof 11) ''1.1.1.1'' 0 =
     (Returns (402, Some ErrContractSpent), ex_proxy ex_contract Map.empty []) \<and>
   paidTier ex_env (ex_proxy (ex_contract\<lparr>Deposit := None\<rparr>) Map.empty []) (ex_proof 1) ''1.1.1.1'' 0 =
     (Returns (402, Some ErrContractSpent), ex_proxy (ex_contract\<lparr>Deposit := None\<rparr>) Map.empty [])"
  by (simp add: ex_defs paid_defs FormatUint_7 Let_def)

text \<open>
  C2 (the code at the failing input). A pay-as-you-go contract with deposit \<open>D = 100\<close>
  and rate \<open>R = 10\<close>, and a proof with nonce \<open>n = 922337203685477581\<close>: \<open>n * R\<close> is
  9223372036854775810, far above the deposit, so the request is to be rejected with
  402. The \<^verbatim>\<open>int64\<close> product \<^verbatim>\<open>aa.Nonce*contract.Rate.Amount.Int64()\<close> wraps around to
  -9223372036854775806, the deposit is not less than it, the check passes and
  \<^verbatim>\<open>paidTier\<close> accepts the request.
\<close>

theorem paidTier_deposit_product_wraps:
  "Type ex_contract = PAY_AS_YOU_GO \<and>
   Deposit ex_contract = Some 100 \<and>
   Amount (Rate ex_contract) = Some 10 \<and>
   sint (ArkAuth.Nonce (ex_proof 922337203685477581)) * 10 = 9223372036854775810 \<and>
   (100::int) < sint (ArkAuth.Nonce (ex_proof 922337203685477581)) * 10 \<and>
   NewInt (ArkAuth.Nonce (ex_proof 922337203685477581) * 10) = - 9223372036854775806 \<and>
   paidTier_deposit ex_contract (ex_proof 922337203685477581) = Returns None \<and>
   fst (paidTier ex_env (ex_proxy ex_contract Map.empty []) (ex_proof 922337203685477581) ''1.1.1.1'' 0) =
     Returns (200, None)"
  by (simp add: ex_defs paid_defs FormatUint_7 Let_def)

lemma paidTier_visitors:
  "visitors (snd (paidTier env p aa remoteAddr now)) = visitors p \<or>
   visitors (snd (paidTier env p aa remoteAddr now)) =
     snd (isRateLimited env (visitors p)
            (Contract.Id (fst (MemStore_Get (MemStore p) (FormatUint (ArkAuth.ContractId aa)))))
            (FormatUint (ArkAuth.ContractId aa))
            (sint (QueriesPerMinute (fst (MemStore_Get (MemStore p) (FormatUint (ArkAuth.ContractId aa))))))
            now)"
  by (auto simp: paidTier_def Let_def split: prod.splits option.splits sum.splits go.splits if_splits)

text \<open>
  C4 (as the code has it). \<^verbatim>\<open>paidTier\<close> does not use its \<^verbatim>\<open>remoteAddr\<close>: result and state
  are the same for every caller address. The only limiter entry it can touch is the one
  under \<^verbatim>\<open>"<contract.Id>-<decimal contract id of the proof>"\<close>; when the checks before it
  pass, the contract's \<^verbatim>\<open>QueriesPerMinute\<close> is applied through \<^verbatim>\<open>isRateLimited\<close> under
  that key, and 429 is returned exactly when it says so.
\<close>

theorem paidTier_limiter_key:
  assumes "MemStore_Get (MemStore p) (FormatUint (ArkAuth.ContractId aa)) = (contract, err)"
  shows
  "paidTier env p aa remoteAddr now = paidTier env p aa remoteAddr' now \<and>
   (\<forall>k. visitors (snd (paidTier env p aa remoteAddr now)) k \<noteq> visitors p k \<longrightarrow>
        k = FormatUint (Contract.Id contract) @ ''-'' @ FormatUint (ArkAuth.ContractId aa)) \<and>
   (err = None \<and>
    \<not> IsExpired env contract (MemStore_GetHeight (MemStore p)) \<and>
    (\<exists>claim. paidTier_claim (ClaimStore p) (FormatUint (ArkAuth.ContractId aa)) aa
         (NewClaim (ArkAuth.ContractId aa) (ArkAuth.Spender aa) (ArkAuth.Nonce aa)
            (EncodeToString (ArkAuth.Signature aa))) = Inr claim) \<and>
    paidTier_deposit contract aa = Returns None \<longrightarrow>
      visitors (snd (paidTier env p aa remoteAddr now)) =
        snd (isRateLimited env (visitors p) (Contract.Id contract) (FormatUint (ArkAuth.ContractId aa))
               (sint (QueriesPerMinute contract)) now) \<and>
      (fst (paidTier env p aa remoteAddr now) = Returns (429, Some ErrRateLimited)) =
        fst (isRateLimited env (visitors p) (Contract.Id contract) (FormatUint (ArkAuth.ContractId aa))
               (sint (QueriesPerMinute contract)) now))"
proof (intro conjI allI impI)
  show "paidTier env p aa remoteAddr now = paidTier env p aa remoteAddr' now"
    by (simp add: paidTier_def)
next
  fix k
  assume d: "visitors (snd (paidTier env p aa remoteAddr now)) k \<noteq> visitors p k"
  show "k = FormatUint (Contract.Id contract) @ ''-'' @ FormatUint (ArkAuth.ContractId aa)"
  proof (rule ccontr)
    assume "k \<noteq> FormatUint (Contract.Id contract) @ ''-'' @ FormatUint (ArkAuth.ContractId aa)"
    from isRateLimited_other [OF this, of env "visitors p" "sint (QueriesPerMinute contract)" now]
      paidTier_visitors [of env p aa remoteAddr now] d assms
    show False by auto
  qed
next
  assume c: "err = None \<and>
    \<not> IsExpired env contract (MemStore_GetHeight (MemStore p)) \<and>
    (\<exists>claim. paidTier_claim (ClaimStore p) (FormatUint (ArkAuth.ContractId aa)) aa
         (NewClaim (ArkAuth.ContractId aa) (ArkAuth.Spender aa) (ArkAuth.Nonce aa)
            (EncodeToString (ArkAuth.Signature aa))) = Inr claim) \<and>
    paidTier_deposit contract aa = Returns None"
  with assms show "visitors (snd (paidTier env p aa remoteAddr now)) =
        snd (isRateLimited env (visitors p) (Contract.Id contract) (FormatUint (ArkAuth.ContractId aa))
               (sint (QueriesPerMinute contract)) now)"
    by (auto simp: paidTier_def Let_def split: prod.splits sum.splits)
  from c assms show "(fst (paidTier env p aa remoteAddr now) = Returns (429, Some ErrRateLimited)) =
        fst (isRateLimited env (visitors p) (Contract.Id contract) (FormatUint (ArkAuth.ContractId aa))
               (sint (QueriesPerMinute contract)) now)"
    by (auto simp: paidTier_def Let_def split: prod.splits sum.splits)
qed

text \<open>
  C4 as stated fails: after one accepted request from 1.1.1.1 on a contract with one
  query per minute, the registry has the single entry \<^verbatim>\<open>"7-7"\<close>, and a request from
  2.2.2.2 for the same contract is rate-limited.
\<close>

theorem paidTier_limiter_key_counterexample:
  "fst (paidTier ex_env (ex_proxy ex_contract Map.empty []) (ex_proof 1) ''1.1.1.1'' 0) = Returns (200, None) \<and>
   dom (visitors (snd (paidTier ex_env (ex_proxy ex_contract Map.empty []) (ex_proof 1) ''1.1.1.1'' 0))) = {''7-7''} \<and>
   fst (paidTier ex_env (snd (paidTier ex_env (ex_proxy ex_contract Map.empty []) (ex_proof 1) ''1.1.1.1'' 0))
          (ex_proof 2) ''2.2.2.2'' 0) = Returns (429, Some ErrRateLimited)"
  by (simp add: ex_defs paid_defs FormatUint_7 Let_def hextable_def)

theorem paidTier_limiter_key_witness:
  "paidTier ex_env (ex_proxy ex_contract Map.empty []) (ex_proof 1) ''1.1.1.1'' 0 =
   paidTier ex_env (ex_proxy ex_contract Map.empty []) (ex_proof 1) ''2.2.2.2'' 0 \<and>
   visitors (snd (paidTier ex_env (ex_proxy ex_contract Map.empty []) (ex_proof 1) ''1.1.1.1'' 0)) =
     snd (isRateLimited ex_env Map.empty 7 ''7'' 1 0) \<and>
   visitors (snd (paidTier ex_env (ex_proxy ex_contract Map.empty []) (ex_proof 1) ''1.1.1.1'' 0)) ''7-1.1.1.1'' = None"
proof -
  have g: "MemStore_Get (MemStore (ex_proxy ex_contract Map.empty [])) (FormatUint (ArkAuth.ContractId (ex_proof 1))) =
      (ex_contract, None)"
    by (simp add: ex_proxy_def ex_memstore_def ex_proof_def MemStore_Get_def FormatUint_7)
  have x: "\<not> IsExpired ex_env ex_contract (MemStore_GetHeight (MemStore (ex_proxy ex_contract Map.empty [])))"
    by (simp add: ex_proxy_def ex_memstore_def ex_env_def ex_contract_def MemStore_GetHeight_def)
  have c: "paidTier_claim (ClaimStore (ex_proxy ex_contract Map.empty [])) k aa cl = Inr cl" for k aa cl
    by (simp add: paidTier_claim_def ClaimStore_Has_def ex_proxy_def ex_claimstore_def)
  have d: "paidTier_deposit ex_contract (ex_proof 1) = Returns None"
    by (simp add: ex_defs paid_defs)
  have v: "visitors (ex_proxy ex_contract Map.empty []) = Map.empty" "Contract.Id ex_contract = 7"
    "sint (QueriesPerMinute ex_contract) = 1" "ArkAuth.ContractId (ex_proof 1) = 7"
    by (simp_all add: ex_proxy_def ex_contract_def ex_proof_def)
  note t = paidTier_limiter_key [OF g, of ex_env "''1.1.1.1''" 0 "''2.2.2.2''"]
  have e: "paidTier ex_env (ex_proxy ex_contract Map.empty []) (ex_proof 1) ''1.1.1.1'' 0 =
      paidTier ex_env (ex_proxy ex_contract Map.empty []) (ex_proof 1) ''2.2.2.2'' 0"
    by (rule t [THEN conjunct1])
  have w: "visitors (snd (paidTier ex_env (ex_proxy ex_contract Map.empty []) (ex_proof 1) ''1.1.1.1'' 0)) =
      snd (isRateLimited ex_env Map.empty 7 ''7'' 1 0)"
    using t [THEN conjunct2, THEN conjunct2] by (simp add: x c d v FormatUint_7)
  have n: "snd (isRateLimited ex_env Map.empty 7 ''7'' 1 0) ''7-1.1.1.1'' = None"
    by (simp add: ex_env_def isRateLimited_def Allow_def NewLimiter_def ex_init_def ex_allow_def
        ex_advance_def Minute_def Let_def FormatUint_7)
  show ?thesis
    using e w n by simp
qed

section \<open>Properties of the \<^verbatim>\<open>auth\<close> middleware\<close>

lemma auth_policy_stores:
  "Config (snd (auth_policy env p contract remoteAddr w now)) = Config p \<and>
   ClaimStore (snd (auth_policy env p contract remoteAddr w now)) = ClaimStore p \<and>
   MemStore (snd (auth_policy env p contract remoteAddr w now)) = MemStore p"
  by (simp add: auth_policy_def Let_def split: prod.splits)

lemma auth_policy_no_tier:
  "w ''tier'' = None \<Longrightarrow>
   (case fst (auth_policy env p contract remoteAddr w now) of
      Inl resp \<Rightarrow> header resp ''tier'' = None \<and>
                  (outcome resp = HttpError 403 \<or> outcome resp = HttpError 429)
    | Inr w' \<Rightarrow> True)"
  by (simp add: auth_policy_def enableCORS_def Let_def split: prod.splits)

lemma auth_free_eq:
  "auth_free env p remoteAddr w now =
     (\<lparr>header = w(''tier'' \<mapsto> ''free''),
       outcome = (if fst (isRateLimited env (visitors p) 0 remoteAddr (FreeTierRateLimit (Config p)) now)
                  then HttpError 429 else Forwarded)\<rparr>,
      p\<lparr>visitors := snd (isRateLimited env (visitors p) 0 remoteAddr (FreeTierRateLimit (Config p)) now)\<rparr>)"
  by (simp add: auth_free_def freeTier_def Let_def split: prod.splits)

text \<open>
  C5 (as the code has it). For a request whose proof parses, on a RESTRICTED contract,
  when \<^verbatim>\<open>aa.Validate\<close> returns an error: the response never has the header
  \<^verbatim>\<open>tier: paid\<close>, and the claim store and the contract cache are not written. If the
  policy block of the contract ends the request, it ends with 403 or 429. Otherwise
  the handler goes to the free tier: the header is \<^verbatim>\<open>tier: free\<close>, and the request is
  forwarded if the free-tier limiter allows it, answered with 429 if not.
\<close>

theorem auth_invalid_proof_never_paid:
  assumes "auth_proof r = Returns (Inr aa)"
    and "MemStore_Get (MemStore p) (FormatUint (ArkAuth.ContractId aa)) = (contract, err)"
    and "Authorization contract = RESTRICTED"
    and "ArkAuth_Validate env aa (ProviderPubKey (Config p)) \<noteq> None"
  shows
  "header (fst (auth env p r t1 t2 t3)) ''tier'' \<noteq> Some ''paid'' \<and>
   ClaimStore (snd (auth env p r t1 t2 t3)) = ClaimStore p \<and>
   MemStore (snd (auth env p r t1 t2 t3)) = MemStore p \<and>
   (\<forall>resp p1. auth_policy env p contract (getRemoteAddr r) Map.empty t1 = (Inl resp, p1) \<longrightarrow>
      auth env p r t1 t2 t3 = (resp, p1) \<and>
      (outcome resp = HttpError 403 \<or> outcome resp = HttpError 429)) \<and>
   (\<forall>w p1. auth_policy env p contract (getRemoteAddr r) Map.empty t1 = (Inr w, p1) \<longrightarrow>
      auth env p r t1 t2 t3 = auth_free env p1 (getRemoteAddr r) w t3 \<and>
      header (fst (auth env p r t1 t2 t3)) ''tier'' = Some ''free'' \<and>
      outcome (fst (auth env p r t1 t2 t3)) =
        (if fst (isRateLimited env (visitors p1) 0 (getRemoteAddr r) (FreeTierRateLimit (Config p1)) t3)
         then HttpError 429 else Forwarded))"
proof -
  let ?pol = "auth_policy env p contract (getRemoteAddr r) Map.empty t1"
  from auth_policy_stores [of env p contract "getRemoteAddr r" Map.empty t1]
  have k: "Config (snd ?pol) = Config p" "ClaimStore (snd ?pol) = ClaimStore p"
    "MemStore (snd ?pol) = MemStore p"
    by simp_all
  from auth_policy_no_tier [of Map.empty env p contract "getRemoteAddr r" t1]
  have nt: "case fst ?pol of
      Inl resp \<Rightarrow> header resp ''tier'' = None \<and>
                  (outcome resp = HttpError 403 \<or> outcome resp = HttpError 429)
    | Inr w' \<Rightarrow> True"
    by simp
  show ?thesis
  proof (cases ?pol)
    case (Pair res p1)
    show ?thesis
    proof (cases res)
      case (Inl resp)
      with Pair assms k nt show ?thesis
        by (simp add: auth_def Let_def)
    next
      case (Inr w)
      from Pair k have c1: "Config p1 = Config p" and s1: "ClaimStore p1 = ClaimStore p"
        and m1: "MemStore p1 = MemStore p"
        by simp_all
      from assms(3,4) c1
      have ne: "\<not> (err = None \<and>
          (Authorization contract = OPEN \<or>
           ArkAuth_Validate env aa (ProviderPubKey (Config p1)) = None))"
        by auto
      have a: "auth env p r t1 t2 t3 = auth_free env p1 (getRemoteAddr r) w t3"
        using Pair Inr assms(1,2) ne by (auto simp: auth_def Let_def)
      show ?thesis
        unfolding a using Pair Inr s1 m1 by (simp add: auth_free_eq)
    qed
  qed
qed

lemma ex_bad_proof: "auth_proof (ex_request ''7:1:'') =
    Returns (Inr \<lparr>ArkAuth.ContractId = 7, Spender = [], Nonce = 1, ArkAuth.Signature = []\<rparr>)"
  by (simp add: auth_proof_def ex_request_def QueryArkAuth_def parseArkAuth_def SplitN_3 SplitN_2
      ParseUint_def ParseInt_def digit_val_def maxUint64_def ArkAuth_zero_def)

text \<open>
  C5 as stated fails: a request from 1.1.1.1 with a proof of empty signature, for a
  RESTRICTED contract whose IP whitelist is \<^verbatim>\<open>["10.0.0.1"]\<close>, is answered 403 with no
  \<^verbatim>\<open>tier\<close> header, although the free-tier limiter would allow it.
\<close>

theorem auth_invalid_proof_counterexample:
  "auth_proof (ex_request ''7:1:'') =
     Returns (Inr \<lparr>ArkAuth.ContractId = 7, Spender = [], Nonce = 1, ArkAuth.Signature = []\<rparr>) \<and>
   ArkAuth_Validate ex_env \<lparr>ArkAuth.ContractId = 7, Spender = [], Nonce = 1, ArkAuth.Signature = []\<rparr>
     ''tarkeopub1'' = Some (ErrCollaborator ''invalid signature'') \<and>
   Authorization ex_contract = RESTRICTED \<and>
   \<not> fst (isRateLimited ex_env Map.empty 0 ''1.1.1.1'' 1 0) \<and>
   outcome (fst (auth ex_env (ex_proxy ex_contract Map.empty [''10.0.0.1'']) (ex_request ''7:1:'') 0 0 0)) =
     HttpError 403 \<and>
   header (fst (auth ex_env (ex_proxy ex_contract Map.empty [''10.0.0.1'']) (ex_request ''7:1:'') 0 0 0))
     ''tier'' = None"
proof -
  have z: "FormatUint 0 = ''0''" by (simp add: FormatUint_def dec.simps digits10_def)
  have a: "ArkAuth_Validate ex_env \<lparr>ArkAuth.ContractId = 7, Spender = [], Nonce = 1, ArkAuth.Signature = []\<rparr>
     ''tarkeopub1'' = Some (ErrCollaborator ''invalid signature'')"
    by (simp add: ArkAuth_Validate_def NewMsgClaimContractIncome_def ex_env_def)
  have b: "Authorization ex_contract = RESTRICTED" by (simp add: ex_contract_def)
  have c: "\<not> fst (isRateLimited ex_env Map.empty 0 ''1.1.1.1'' 1 0)"
    by (simp add: ex_env_def isRateLimited_def Allow_def NewLimiter_def ex_init_def ex_allow_def
        ex_advance_def Minute_def Let_def z)
  have d: "fst (auth ex_env (ex_proxy ex_contract Map.empty [''10.0.0.1'']) (ex_request ''7:1:'') 0 0 0) =
      \<lparr>header = Map.empty, outcome = HttpError 403\<rparr>"
    by (simp add: auth_def ex_bad_proof Let_def)
       (simp add: auth_policy_def getRemoteAddr_def xRealIPName_def forwardHeaderName_def
          enableCORS_def ex_env_def ex_EqualFold_def ex_lower_def ex_request_def ex_proxy_def ex_memstore_def
          ex_config_def ex_contract_def MemStore_Get_def FormatUint_7 Let_def)
  show ?thesis
    unfolding d using ex_bad_proof a b c by simp
qed

theorem auth_invalid_proof_never_paid_witness:
  "outcome (fst (auth ex_env (ex_proxy ex_contract Map.empty []) (ex_request ''7:1:'') 0 0 0)) = Forwarded \<and>
   header (fst (auth ex_env (ex_proxy ex_contract Map.empty []) (ex_request ''7:1:'') 0 0 0)) ''tier'' =
     Some ''free'' \<and>
   ClaimStore (snd (auth ex_env (ex_proxy ex_contract Map.empty []) (ex_request ''7:1:'') 0 0 0)) =
     ex_claimstore Map.empty \<and>
   outcome (fst (auth ex_env (ex_proxy ex_contract Map.empty [''10.0.0.1'']) (ex_request ''7:1:'') 0 0 0)) =
     HttpError 403"
proof -
  let ?aa = "\<lparr>ArkAuth.ContractId = 7, Spender = [], Nonce = 1, ArkAuth.Signature = []\<rparr>"
  have z: "FormatUint 0 = ''0''" by (simp add: FormatUint_def dec.simps digits10_def)
  have g: "MemStore_Get (MemStore (ex_proxy ex_contract Map.empty wl)) (FormatUint (ArkAuth.ContractId ?aa)) =
      (ex_contract, None)" for wl
    by (simp add: ex_proxy_def ex_memstore_def MemStore_Get_def FormatUint_7)
  have b: "Authorization ex_contract = RESTRICTED" by (simp add: ex_contract_def)
  have a: "ArkAuth_Validate ex_env ?aa (ProviderPubKey (Config (ex_proxy ex_contract Map.empty wl))) \<noteq> None" for wl
    by (simp add: ArkAuth_Validate_def NewMsgClaimContractIncome_def ex_env_def ex_proxy_def)
  have r: "getRemoteAddr (ex_request ''7:1:'') = ''1.1.1.1''"
    by (simp add: getRemoteAddr_def xRealIPName_def forwardHeaderName_def ex_request_def)
  have pol: "auth_policy ex_env (ex_proxy ex_contract Map.empty []) ex_contract ''1.1.1.1'' Map.empty 0 =
      (Inr Map.empty, ex_proxy ex_contract Map.empty [])"
    by (simp add: auth_policy_def enableCORS_def ex_proxy_def ex_config_def ex_contract_def Let_def)
  have pol': "auth_policy ex_env (ex_proxy ex_contract Map.empty [''10.0.0.1'']) ex_contract ''1.1.1.1'' Map.empty 0 =
      (Inl \<lparr>header = Map.empty, outcome = HttpError 403\<rparr>, ex_proxy ex_contract Map.empty [''10.0.0.1''])"
    by (simp add: auth_policy_def enableCORS_def ex_env_def ex_EqualFold_def ex_lower_def ex_proxy_def ex_config_def
        ex_contract_def Let_def)
  have l: "\<not> fst (isRateLimited ex_env (visitors (ex_proxy ex_contract Map.empty [])) 0 ''1.1.1.1''
      (FreeTierRateLimit (Config (ex_proxy ex_contract Map.empty []))) 0)"
    by (simp add: ex_proxy_def ex_env_def isRateLimited_def Allow_def NewLimiter_def ex_init_def ex_allow_def
        ex_advance_def Minute_def Let_def z)
  note t = auth_invalid_proof_never_paid [OF ex_bad_proof g b a, of "[]" 0 0 0]
  note t' = auth_invalid_proof_never_paid [OF ex_bad_proof g b a, of "[''10.0.0.1'']" 0 0 0]
  have c: "ClaimStore (ex_proxy ex_contract Map.empty []) = ex_claimstore Map.empty"
    by (simp add: ex_proxy_def)
  from t have 1: "outcome (fst (auth ex_env (ex_proxy ex_contract Map.empty []) (ex_request ''7:1:'') 0 0 0)) = Forwarded"
    and 2: "header (fst (auth ex_env (ex_proxy ex_contract Map.empty []) (ex_request ''7:1:'') 0 0 0)) ''tier'' = Some ''free''"
    and 3: "ClaimStore (snd (auth ex_env (ex_proxy ex_contract Map.empty []) (ex_request ''7:1:'') 0 0 0)) = ex_claimstore Map.empty"
    using l by (auto simp: r pol c)
  from t' have 4: "outcome (fst (auth ex_env (ex_proxy ex_contract Map.empty [''10.0.0.1'']) (ex_request ''7:1:'') 0 0 0)) = HttpError 403"
    by (auto simp: r pol')
  from 1 2 3 4 show ?thesis by simp
qed

end
